theory Spec2Isabelle
  imports Main "HOL-Library.Sublist"
begin

section \<open>The story generator of app.py\<close>

text \<open>
  app.py is one Streamlit script: a prompt template, a chain
  \<^verbatim>\<open>prompt | llm | story_parser\<close>, a PDF routine and the page itself. The language
  model, the output parser, the parser's format instructions, the temporary-file names
  and the encoding tables of the PDF fonts come from outside the script; they are the
  fields of the record \<open>env\<close> below, and a theorem that names no particular
  environment holds for all of them.
\<close>

subsection \<open>Values, errors and the output schema\<close>

text \<open>Lines 13 to 16: the class \<^verbatim>\<open>StoryOutput\<close> with its three string fields.\<close>

record StoryOutput =
  Topic :: string
  Story :: string
  Moral :: string

text \<open>The exceptions that can reach the handler's \<^verbatim>\<open>except Exception\<close>.\<close>

datatype error =
    KeyError string
  | ValueError string
  | OutputParserException string
  | APIError string
  | JSONDecodeError string
  | OSError string
  | FileNotFoundError string

text \<open>The values of the dictionary given to \<^verbatim>\<open>story_chain.invoke\<close>.\<close>

datatype pyval = PStr string | PInt int | PBool bool

type_synonym pydict = "(string \<times> pyval) list"

definition digit_char :: "nat \<Rightarrow> char" where
  "digit_char d = ''0123456789'' ! d"

fun str_nat :: "nat \<Rightarrow> string" where
  "str_nat n = (if n < 10 then [digit_char n] else str_nat (n div 10) @ [digit_char (n mod 10)])"

declare str_nat.simps [simp del]

definition str_int :: "int \<Rightarrow> string" where
  "str_int i = (if i < 0 then CHR ''-'' # str_nat (nat (- i)) else str_nat (nat i))"

text \<open>What \<^verbatim>\<open>format\<close> writes for a value with an empty format specification.\<close>

fun py_str :: "pyval \<Rightarrow> string" where
  "py_str (PStr s) = s"
| "py_str (PInt i) = str_int i"
| "py_str (PBool b) = (if b then ''True'' else ''False'')"

subsection \<open>The prompt (lines 24 to 50)\<close>

text \<open>
  The en dash of the age bands is outside ASCII; it is written as the three bytes of
  its UTF-8 encoding.
\<close>

definition en_dash :: string where
  "en_dash = [CHR 0xE2, CHR 0x80, CHR 0x93]"

text \<open>
  The system text is four adjacent literals, which Python joins without a separator.
\<close>

definition system_template :: string where
  "system_template =
     ''You are a creative, professional and award winning author who writes engaging, exciting, suspense-full'' @
     ''and emotionally rich short stories with strong character arcs and a satisfying ending according to the reader'' @
     [CHR 0x27] @ ''s age.'' @
     ''You MUST return ONLY valid JSON. '' @
     ''Do NOT include explanations, markdown, or extra text.''"

text \<open>The human text is the triple-quoted literal of lines 31 to 48, one source line per row.\<close>

definition human_template :: string where
  "human_template = concat
     [''\<newline>'',
      ''        Write a 400 words story based on the following details:\<newline>'',
      ''\<newline>'',
      ''        Theme / Topic: {topic}\<newline>'',
      ''        Reader Age: {age}\<newline>'',
      ''        Genre: {genre}\<newline>'',
      ''        Character: {name}\<newline>'',
      ''\<newline>'',
      ''        {format_instructions}\<newline>'',
      ''\<newline>'',
      ''        Age Guidelines:\<newline>'',
      ''        - Age 3'', en_dash, ''6: Very simple words, cheerful tone, short sentences\<newline>'',
      ''        - Age 7'', en_dash, ''12: Simple plot, light adventure, positive moral\<newline>'',
      ''        - Age 13'', en_dash, ''17: Deeper emotions, character growth, mild conflict\<newline>'',
      ''        - Age 18+: Mature themes, nuanced characters, richer language\<newline>'',
      ''\<newline>'',
      ''        Ensure the content is fully appropriate for the given age.\<newline>'',
      ''        '']"

text \<open>
  Formatting a template in the f-string style: text outside braces is copied, a field
  \<^verbatim>\<open>{key}\<close> is replaced by the value of the key, and a key that the dictionary lacks
  raises \<^verbatim>\<open>KeyError\<close>. Keys of the dictionary that the template does not name are not
  looked at. The second argument is the field being read, if any. The templates of
  app.py have no doubled braces, conversions or format specifications, so those
  are not modelled; a lone closing brace and an unclosed field raise \<^verbatim>\<open>ValueError\<close>.
\<close>

fun format_chars :: "pydict \<Rightarrow> string option \<Rightarrow> string \<Rightarrow> error + string" where
  "format_chars d None [] = Inr []"
| "format_chars d (Some k) [] = Inl (ValueError ''expected } before end of string'')"
| "format_chars d None (c # cs) =
     (if c = CHR ''{'' then format_chars d (Some []) cs
      else if c = CHR ''}'' then Inl (ValueError ''Single } encountered in format string'')
      else (case format_chars d None cs of Inl e \<Rightarrow> Inl e | Inr s \<Rightarrow> Inr (c # s)))"
| "format_chars d (Some k) (c # cs) =
     (if c = CHR ''}'' then
        (case map_of d k of
           None \<Rightarrow> Inl (KeyError k)
         | Some v \<Rightarrow> (case format_chars d None cs of Inl e \<Rightarrow> Inl e | Inr s \<Rightarrow> Inr (py_str v @ s)))
      else format_chars d (Some (k @ [c])) cs)"

definition format_template :: "string \<Rightarrow> pydict \<Rightarrow> error + string" where
  "format_template t d = format_chars d None t"

datatype message = SystemMessage string | HumanMessage string

text \<open>
  \<^verbatim>\<open>prompt.invoke\<close>: the partial value \<open>format_instructions\<close> joins the caller's
  dictionary, then both templates are formatted.
\<close>

definition prompt_invoke :: "string \<Rightarrow> pydict \<Rightarrow> error + message list" where
  "prompt_invoke fi d =
     (let d' = d @ [(''format_instructions'', PStr fi)] in
      case format_template system_template d' of
        Inl e \<Rightarrow> Inl e
      | Inr s \<Rightarrow>
          (case format_template human_template d' of
             Inl e \<Rightarrow> Inl e
           | Inr h \<Rightarrow> Inr [SystemMessage s, HumanMessage h]))"

subsection \<open>The chain (lines 55 to 63)\<close>

text \<open>
  What the script takes from outside: the format instructions that the parser derives
  from the schema, the chat model (its reply text, or the exception of a failed call),
  the parser's reading of a reply (the record, or the exception of a reply that does not
  fit the schema), the names that the temporary-file module tries in order, and the
  encoding tables of the PDF fonts: \<open>codec env f ch\<close> is the code of the character
  \<open>ch\<close> in the encoding of the font \<open>f\<close>, if that encoding has the character.
\<close>

record env =
  format_instructions :: string
  llm :: "message list \<Rightarrow> error + string"
  parser :: "string \<Rightarrow> error + StoryOutput"
  tmp_names :: "string list"
  codec :: "string \<Rightarrow> string \<Rightarrow> char option"

datatype pagesizes = A4 | LETTER

text \<open>
  What a PDF shows is glyphs: a glyph is a font and a code in that font's encoding. A
  line of text is a font size and its glyphs.
\<close>

type_synonym glyph = "string \<times> char"

type_synonym text_line = "nat \<times> glyph list"

record textobject =
  origin :: "int \<times> int"
  font :: "string \<times> nat"
  text_lines :: "text_line list"

datatype file_content = EmptyFile | PdfFile pagesizes "textobject list list"

text \<open>
  The world a run changes: the files, and two logs kept for the statements below. The
  log \<open>chain_calls\<close> has one entry for each call of \<^verbatim>\<open>story_chain.invoke\<close>, the
  dictionary it was given. The log \<open>llm_calls\<close> has one entry for each time the chain
  hands messages to the chat model, the messages handed over. What the chat model's
  client does inside one such call, the requests it sends and repeats on its own
  account, is inside \<open>llm env\<close> and is not counted by either log.
\<close>

record world =
  files :: "string \<rightharpoonup> file_content"
  llm_calls :: "message list list"
  chain_calls :: "pydict list"

text \<open>\<^verbatim>\<open>story_chain = prompt | llm | story_parser\<close>: each stage runs once, the first
  exception ends the chain.\<close>

definition story_chain_invoke :: "env \<Rightarrow> pydict \<Rightarrow> world \<Rightarrow> (error + StoryOutput) \<times> world" where
  "story_chain_invoke env d w =
     (let w = w\<lparr>chain_calls := chain_calls w @ [d]\<rparr> in
      case prompt_invoke (format_instructions env) d of
        Inl e \<Rightarrow> (Inl e, w)
      | Inr msgs \<Rightarrow>
          (let w = w\<lparr>llm_calls := llm_calls w @ [msgs]\<rparr> in
           case llm env msgs of
             Inl e \<Rightarrow> (Inl e, w)
           | Inr reply \<Rightarrow>
               (case parser env reply of
                  Inl e \<Rightarrow> (Inl e, w)
                | Inr result \<Rightarrow> (Inr result, w))))"

subsection \<open>The output parser (line 18)\<close>

text \<open>
  \<^verbatim>\<open>story_parser = PydanticOutputParser(pydantic_object=StoryOutput)\<close>. The chain above
  takes the parser from the environment; this is the parser that line 18 builds, as
  the library reads a reply. The reply is read as JSON and the object is validated
  against the schema of lines 13 to 16. The JSON reader proper is the argument
  \<open>loads\<close>: the object of a text, or \<^verbatim>\<open>JSONDecodeError\<close>.
\<close>

datatype json =
    JNull
  | JBool bool
  | JNumber int
  | JString string
  | JArray "json list"
  | JObject "(string \<times> json) list"










subsection \<open>The PDF generator (lines 68 to 87)\<close>

text \<open>
  \<^verbatim>\<open>tempfile.NamedTemporaryFile(delete=False, suffix=".pdf")\<close> creates an empty file
  under the first candidate name that no file has yet, and raises when there is none.
\<close>

definition NamedTemporaryFile :: "env \<Rightarrow> string \<Rightarrow> world \<Rightarrow> (error + string) \<times> world" where
  "NamedTemporaryFile env sfx w =
     (case find (\<lambda>n. files w (n @ sfx) = None) (tmp_names env) of
        None \<Rightarrow> (Inl (OSError ''No usable temporary file name found''), w)
      | Some n \<Rightarrow> (Inr (n @ sfx), w\<lparr>files := (files w)(n @ sfx \<mapsto> EmptyFile)\<rparr>))"

text \<open>
  The canvas: a file name, a page size, what has been drawn on the current page and
  the pages already closed. A text object starts at a position with the canvas's
  initial font and collects its lines, each in the font set when it was written.
  The vertical advance of a line is not modelled; the lines keep their order.
\<close>

record canvas =
  filename :: string
  pagesize :: pagesizes
  page :: "textobject list"
  pages :: "textobject list list"

definition Canvas :: "string \<Rightarrow> pagesizes \<Rightarrow> canvas" where
  "Canvas fname ps = \<lparr>filename = fname, pagesize = ps, page = [], pages = []\<rparr>"

definition beginText :: "int \<Rightarrow> int \<Rightarrow> canvas \<Rightarrow> textobject" where
  "beginText px py c = \<lparr>origin = (px, py), font = (''Helvetica'', 12), text_lines = []\<rparr>"

definition setFont :: "string \<Rightarrow> nat \<Rightarrow> textobject \<Rightarrow> textobject" where
  "setFont fname fsize t = t\<lparr>font := (fname, fsize)\<rparr>"

text \<open>
  A Python string is a sequence of characters; here it is the bytes of its UTF-8
  encoding, so a character is a leading byte with the continuation bytes (0x80 to 0xBF)
  that follow it.
\<close>

definition is_continuation :: "char \<Rightarrow> bool" where
  "is_continuation c = (128 \<le> (of_char c :: nat) \<and> (of_char c :: nat) < 192)"

function utf8_chars :: "string \<Rightarrow> string list" where
  "utf8_chars [] = []"
| "utf8_chars (c # cs) =
     (c # takeWhile is_continuation cs) # utf8_chars (dropWhile is_continuation cs)"
  by pat_completeness auto
termination
  by (relation "measure length") (auto simp add: length_dropWhile_le less_Suc_eq_le)

text \<open>
  How a line is written in one of the standard fonts: each character becomes a glyph of
  the first font that has it in its encoding, among the line's font and the two
  substitution fonts Symbol and ZapfDingbats; a character that none of them has becomes
  the glyph that stands for a missing character, the code of the letter n in
  ZapfDingbats, which is a filled square.
\<close>

definition notdef_glyph :: glyph where
  "notdef_glyph = (''ZapfDingbats'', CHR ''n'')"

definition glyph_of :: "env \<Rightarrow> string \<Rightarrow> string \<Rightarrow> glyph" where
  "glyph_of env f ch =
     (case codec env f ch of
        Some b \<Rightarrow> (f, b)
      | None \<Rightarrow>
          (case codec env ''Symbol'' ch of
             Some b \<Rightarrow> (''Symbol'', b)
           | None \<Rightarrow>
               (case codec env ''ZapfDingbats'' ch of
                  Some b \<Rightarrow> (''ZapfDingbats'', b)
                | None \<Rightarrow> notdef_glyph)))"

definition unicode2T1 :: "env \<Rightarrow> string \<Rightarrow> string \<Rightarrow> glyph list" where
  "unicode2T1 env f s = map (glyph_of env f) (utf8_chars s)"

text \<open>
  A text is written as it is in a font when each of its characters is a single byte
  below 128 whose code in the font's encoding is that byte, as printable ASCII is in
  the encoding of the Helvetica fonts.
\<close>

definition written_as_is :: "env \<Rightarrow> string \<Rightarrow> string \<Rightarrow> bool" where
  "written_as_is env f s = (\<forall>c \<in> set s. (of_char c :: nat) < 128 \<and> codec env f [c] = Some c)"

text \<open>\<^verbatim>\<open>textLine\<close> writes the string as one line: a newline character in it does not
  break the line, it is a character like the others.\<close>

definition textLine :: "env \<Rightarrow> string \<Rightarrow> textobject \<Rightarrow> textobject" where
  "textLine env s t =
     t\<lparr>text_lines := text_lines t @ [(snd (font t), unicode2T1 env (fst (font t)) s)]\<rparr>"

definition drawText :: "textobject \<Rightarrow> canvas \<Rightarrow> canvas" where
  "drawText t c = c\<lparr>page := page c @ [t]\<rparr>"

definition showPage :: "canvas \<Rightarrow> canvas" where
  "showPage c = c\<lparr>pages := pages c @ [page c], page := []\<rparr>"

text \<open>\<^verbatim>\<open>save\<close> closes a page that still has content and writes the document.\<close>

definition save :: "canvas \<Rightarrow> world \<Rightarrow> world" where
  "save c w =
     (let c = (if page c = [] then c else showPage c) in
      w\<lparr>files := (files w)(filename c \<mapsto> PdfFile (pagesize c) (pages c))\<rparr>)"

text \<open>\<^verbatim>\<open>s.split(sep)\<close> for a separator of one character: never an empty list.\<close>

fun py_split :: "string \<Rightarrow> char \<Rightarrow> string list" where
  "py_split [] sep = [[]]"
| "py_split (c # cs) sep =
     (if c = sep then [] # py_split cs sep
      else (case py_split cs sep of
              [] \<Rightarrow> [[c]]
            | l # ls \<Rightarrow> (c # l) # ls))"

definition generate_pdf :: "env \<Rightarrow> StoryOutput \<Rightarrow> world \<Rightarrow> (error + string) \<times> world" where
  "generate_pdf env result w =
     (case NamedTemporaryFile env ''.pdf'' w of
        (Inl e, w) \<Rightarrow> (Inl e, w)
      | (Inr temp_file_name, w) \<Rightarrow>
          (let c = Canvas temp_file_name A4;
               text = beginText 40 800 c;
               text = setFont ''Helvetica-Bold'' 14 text;
               text = textLine env (Topic result) text;
               text = textLine env [] text;
               text = setFont ''Helvetica'' 11 text;
               text = fold (textLine env) (py_split (Story result) CHR ''\<newline>'') text;
               text = textLine env ''\<newline>Moral:'' text;
               text = textLine env (Moral result) text;
               c = drawText text c;
               c = showPage c;
               w = save c w
           in (Inr temp_file_name, w)))"

subsection \<open>The page (lines 92 to 148)\<close>

text \<open>The emoji of the labels, as the bytes of their UTF-8 encoding.\<close>

definition emoji_book :: string where "emoji_book = [CHR 0xF0, CHR 0x9F, CHR 0x93, CHR 0x96]"
definition emoji_child :: string where "emoji_child = [CHR 0xF0, CHR 0x9F, CHR 0xA7, CHR 0x92]"
definition emoji_sparkles :: string where "emoji_sparkles = [CHR 0xE2, CHR 0x9C, CHR 0xA8]"
definition emoji_pin :: string where "emoji_pin = [CHR 0xF0, CHR 0x9F, CHR 0x93, CHR 0x8C]"
definition emoji_books :: string where "emoji_books = [CHR 0xF0, CHR 0x9F, CHR 0x93, CHR 0x9A]"
definition emoji_seedling :: string where "emoji_seedling = [CHR 0xF0, CHR 0x9F, CHR 0x8C, CHR 0xB1]"
definition emoji_page :: string where "emoji_page = [CHR 0xF0, CHR 0x9F, CHR 0x93, CHR 0x84]"

text \<open>What one run of the script puts on the page, in order.\<close>

datatype element =
    PageConfig string string
  | Title string
  | TextInput string
  | Selectbox string "string list"
  | NumberInput string int int int
  | Checkbox string bool
  | Button string
  | Warning string
  | Spinner string
  | Subheader string
  | Write string
  | DownloadButton string file_content string string
  | ErrorMsg string
  | ExceptionMsg error

text \<open>
  What the user has entered when the script runs: the value of each widget, the state
  of the parent-safe checkbox (read only when the checkbox is on the page) and whether
  this run follows a press of the button.
\<close>

record ui_input =
  user_topic :: string
  genre :: string
  language :: string
  age :: int
  name :: string
  checkbox :: bool
  button :: bool

text \<open>Lines 92 to 109: the input widgets; the result is \<^verbatim>\<open>parent_safe\<close> and the page so far.\<close>

definition input_controls :: "ui_input \<Rightarrow> bool \<times> element list" where
  "input_controls ui =
     (let out = [PageConfig ''AI Story Generator'' ''centered'',
                 Title (emoji_book @ '' AI Story Generator''),
                 TextInput ''Enter a topic, theme, or idea for the story'',
                 Selectbox ''Select a genre''
                   [''Adventure'', ''Educational'', ''Fairy Tale'', ''Fantasy'', ''Fiction'',
                    ''Motivational'', ''Mystery'', ''Sci-Fi''],
                 Selectbox ''Select story language'' [''English'', ''Hindi'', ''Gujarati''],
                 NumberInput (''Reader'' @ [CHR 0x27] @ ''s age'') 3 100 1,
                 TextInput (''Main character'' @ [CHR 0x27] @ ''s name'')]
      in if age ui > 18 then (False, out)
         else (checkbox ui, out @ [Checkbox (emoji_child @ '' Parent-safe content mode'') True]))"

definition open_rb :: "string \<Rightarrow> world \<Rightarrow> error + file_content" where
  "open_rb path w = (case files w path of None \<Rightarrow> Inl (FileNotFoundError path) | Some f \<Rightarrow> Inr f)"

text \<open>Lines 117 to 124: the dictionary given to the chain.\<close>

definition chain_inputs :: "ui_input \<Rightarrow> bool \<Rightarrow> pydict" where
  "chain_inputs ui parent_safe =
     [(''topic'', PStr (user_topic ui)),
      (''genre'', PStr (genre ui)),
      (''language'', PStr (language ui)),
      (''age'', PInt (age ui)),
      (''name'', PStr (name ui)),
      (''parent_safe'', PBool parent_safe)]"

text \<open>Lines 115 to 148: the body of the \<^verbatim>\<open>else\<close> branch, with its \<^verbatim>\<open>try\<close>.\<close>

definition generate_story :: "env \<Rightarrow> ui_input \<Rightarrow> bool \<Rightarrow> world \<Rightarrow> element list \<times> world" where
  "generate_story env ui parent_safe w =
     (let out = [Spinner ''Creating your story...''];
          failed = (\<lambda>e. [ErrorMsg ''Story generation failed.'', ExceptionMsg e])
      in case story_chain_invoke env (chain_inputs ui parent_safe) w of
           (Inl e, w) \<Rightarrow> (out @ failed e, w)
         | (Inr result, w) \<Rightarrow>
             (let out = out @ [Subheader (emoji_pin @ '' Topic''), Write (Topic result)];
                  out = out @ [Subheader (emoji_books @ '' Story''), Write (Story result)];
                  out = (if genre ui = ''Motivational'' \<or> genre ui = ''Educational''
                         then out @ [Subheader (emoji_seedling @ '' Moral''), Write (Moral result)]
                         else out)
              in case generate_pdf env result w of
                   (Inl e, w) \<Rightarrow> (out @ failed e, w)
                 | (Inr pdf_path, w) \<Rightarrow>
                     (case open_rb pdf_path w of
                        Inl e \<Rightarrow> (out @ failed e, w)
                      | Inr f \<Rightarrow>
                          (out @ [DownloadButton (emoji_page @ '' Download as PDF'') f
                                    ''story.pdf'' ''application/pdf''], w))))"

text \<open>The whole script.\<close>

definition app :: "env \<Rightarrow> ui_input \<Rightarrow> world \<Rightarrow> element list \<times> world" where
  "app env ui w =
     (case input_controls ui of (parent_safe, out) \<Rightarrow>
        (let out = out @ [Button (emoji_sparkles @ '' Generate Story'')] in
         if button ui then
           (if user_topic ui = [] \<or> name ui = [] then
              (out @ [Warning ''Please fill all required fields.''], w)
            else (case generate_story env ui parent_safe w of
                    (out', w) \<Rightarrow> (out @ out', w)))
         else (out, w)))"

subsection \<open>Example runs\<close>

text \<open>
  Concrete inputs at which the theorems below are exercised: the scenario of the
  specification (a brave fox, age 8, Adventure, Mia), a model that replies with a
  conforming text, a parser that accepts exactly that text, and an empty file system.
\<close>

definition example_story :: StoryOutput where
  "example_story =
     \<lparr>Topic = ''The Brave Fox'',
      Story = ''Mia met a fox.\<newline>They became friends.'',
      Moral = ''Be brave.''\<rparr>"

definition example_reply :: string where
  "example_reply = ''{Topic: The Brave Fox, Story: Mia met a fox..., Moral: Be brave.}''"

text \<open>
  An example of encoding tables: the two Helvetica fonts have printable ASCII, each
  character under its own code, and the example has no other character in any font.
\<close>

definition ascii_codec :: "string \<Rightarrow> string \<Rightarrow> char option" where
  "ascii_codec f ch =
     (case ch of
        [c] \<Rightarrow>
          (if (f = ''Helvetica'' \<or> f = ''Helvetica-Bold'') \<and>
              32 \<le> (of_char c :: nat) \<and> (of_char c :: nat) < 127
           then Some c else None)
      | _ \<Rightarrow> None)"

definition example_env :: env where
  "example_env =
     \<lparr>format_instructions = ''Return a JSON object with the keys Topic, Story and Moral.'',
      llm = (\<lambda>msgs. Inr example_reply),
      parser = (\<lambda>reply. if reply = example_reply then Inr example_story
                         else Inl (OutputParserException reply)),
      tmp_names = [''/tmp/tmpa1b2c3'', ''/tmp/tmpd4e5f6''],
      codec = ascii_codec\<rparr>"

definition example_ui :: ui_input where
  "example_ui =
     \<lparr>user_topic = ''a brave fox'', genre = ''Adventure'', language = ''English'', age = 8,
      name = ''Mia'', checkbox = True, button = True\<rparr>"

definition example_world :: world where
  "example_world = \<lparr>files = Map.empty, llm_calls = [], chain_calls = []\<rparr>"




text \<open>
  A story in Hindi: the topic (fox, six characters), one sentence and the moral
  (courage, four characters), in Devanagari.
\<close>

definition hindi_story :: StoryOutput where
  "hindi_story =
     \<lparr>Topic = [CHR 0xE0, CHR 0xA4, CHR 0xB2, CHR 0xE0, CHR 0xA5, CHR 0x8B, CHR 0xE0, CHR 0xA4, CHR 0xAE,
               CHR 0xE0, CHR 0xA4, CHR 0xA1, CHR 0xE0, CHR 0xA4, CHR 0xBC, CHR 0xE0, CHR 0xA5, CHR 0x80],
      Story = [CHR 0xE0, CHR 0xA4, CHR 0xB2, CHR 0xE0, CHR 0xA5, CHR 0x8B, CHR 0xE0, CHR 0xA4, CHR 0xAE,
               CHR 0xE0, CHR 0xA4, CHR 0xA1, CHR 0xE0, CHR 0xA4, CHR 0xBC, CHR 0xE0, CHR 0xA5, CHR 0x80,
               CHR 0x20, CHR 0xE0, CHR 0xA4, CHR 0xAC, CHR 0xE0, CHR 0xA4, CHR 0xB9, CHR 0xE0, CHR 0xA4,
               CHR 0xBE, CHR 0xE0, CHR 0xA4, CHR 0xA6, CHR 0xE0, CHR 0xA5, CHR 0x81, CHR 0xE0, CHR 0xA4,
               CHR 0xB0, CHR 0x20, CHR 0xE0, CHR 0xA4, CHR 0xA5, CHR 0xE0, CHR 0xA5, CHR 0x80, CHR 0xE0,
               CHR 0xA5, CHR 0xA4],
      Moral = [CHR 0xE0, CHR 0xA4, CHR 0xB8, CHR 0xE0, CHR 0xA4, CHR 0xBE, CHR 0xE0, CHR 0xA4, CHR 0xB9,
               CHR 0xE0, CHR 0xA4, CHR 0xB8]\<rparr>"

section \<open>Properties\<close>

subsection \<open>Formatting the prompt\<close>

text \<open>
  Text without braces is copied as it is, and formatting a template that starts with a
  well-formed part continues on the rest. The human template has its last field at
  character 202; what follows is brace-free, so only the first 202 characters have to
  be run against a dictionary.
\<close>

lemma format_chars_plain:
  "CHR ''{'' \<notin> set l \<Longrightarrow> CHR ''}'' \<notin> set l \<Longrightarrow> format_chars d None l = Inr l"
  by (induction l) auto

lemma format_chars_append:
  "format_chars d m p = Inr s \<Longrightarrow>
   format_chars d m (p @ r) = (case format_chars d None r of Inl e \<Rightarrow> Inl e | Inr s' \<Rightarrow> Inr (s @ s'))"
  by (induction d m p arbitrary: s rule: format_chars.induct)
     (auto split: if_splits sum.splits option.splits)

lemma format_system_template: "format_template system_template d = Inr system_template"
  unfolding format_template_def
  by (rule format_chars_plain) (simp_all add: system_template_def)

lemma human_tail_plain:
  "CHR ''{'' \<notin> set (drop 202 human_template) \<and> CHR ''}'' \<notin> set (drop 202 human_template)"
  by code_simp

lemma human_head_ok:
  "\<not> isl (format_chars [(''topic'', PStr t), (''genre'', PStr g), (''language'', PStr l),
       (''age'', PInt a), (''name'', PStr n), (''parent_safe'', PBool p),
       (''format_instructions'', PStr fi)] None (take 202 human_template))"
  by code_simp

lemma human_head_indep:
  "format_chars [(''topic'', PStr t), (''genre'', PStr g), (''language'', PStr l),
       (''age'', PInt a), (''name'', PStr n), (''parent_safe'', PBool p),
       (''format_instructions'', PStr fi)] None (take 202 human_template) =
   format_chars [(''topic'', PStr t), (''genre'', PStr g), (''language'', PStr l'),
       (''age'', PInt a), (''name'', PStr n), (''parent_safe'', PBool p'),
       (''format_instructions'', PStr fi)] None (take 202 human_template)"
  by code_simp

lemma format_human_split:
  assumes "format_chars d None (take 202 human_template) = Inr s"
  shows "format_template human_template d = Inr (s @ drop 202 human_template)"
proof -
  have "format_chars d None (take 202 human_template @ drop 202 human_template) =
        (case format_chars d None (drop 202 human_template) of
           Inl e \<Rightarrow> Inl e | Inr s' \<Rightarrow> Inr (s @ s'))"
    using assms by (rule format_chars_append)
  moreover have "format_chars d None (drop 202 human_template) = Inr (drop 202 human_template)"
    using human_tail_plain by (intro format_chars_plain) simp_all
  ultimately show ?thesis
    by (simp add: format_template_def)
qed

lemma prompt_invoke_chain_inputs:
  "\<exists>s. prompt_invoke fi (chain_inputs ui ps) =
         Inr [SystemMessage system_template, HumanMessage (s @ drop 202 human_template)]"
proof -
  let ?d = "chain_inputs ui ps @ [(''format_instructions'', PStr fi)]"
  have "\<not> isl (format_chars ?d None (take 202 human_template))"
    using human_head_ok [of "user_topic ui" "genre ui" "language ui" "age ui" "name ui" ps fi]
    by (simp add: chain_inputs_def)
  then obtain s where "format_chars ?d None (take 202 human_template) = Inr s"
    by (cases "format_chars ?d None (take 202 human_template)") auto
  then have "format_template human_template ?d = Inr (s @ drop 202 human_template)"
    by (rule format_human_split)
  then show ?thesis
    by (auto simp add: prompt_invoke_def Let_def format_system_template)
qed

lemma prompt_invoke_indep:
  assumes "user_topic ui' = user_topic ui" "genre ui' = genre ui" "age ui' = age ui" "name ui' = name ui"
  shows "prompt_invoke fi (chain_inputs ui' ps') = prompt_invoke fi (chain_inputs ui ps)"
proof -
  let ?d = "chain_inputs ui ps @ [(''format_instructions'', PStr fi)]"
  let ?d' = "chain_inputs ui' ps' @ [(''format_instructions'', PStr fi)]"
  obtain s where s: "format_chars ?d None (take 202 human_template) = Inr s"
    using human_head_ok [of "user_topic ui" "genre ui" "language ui" "age ui" "name ui" ps fi]
    by (cases "format_chars ?d None (take 202 human_template)") (auto simp add: chain_inputs_def)
  have "format_chars ?d' None (take 202 human_template) = format_chars ?d None (take 202 human_template)"
    using human_head_indep [of "user_topic ui" "genre ui" "language ui'" "age ui" "name ui" ps' fi "language ui" ps]
    by (simp add: chain_inputs_def assms)
  with s have "format_template human_template ?d' = format_template human_template ?d"
    by (simp add: format_human_split)
  then show ?thesis
    by (simp add: prompt_invoke_def Let_def format_system_template)
qed

subsection \<open>The chain, the PDF routine and the handler, step by step\<close>

text \<open>Once the prompt is formatted, the chain logs one call and returns what the model
  and the parser give.\<close>

lemma story_chain_invoke_eq:
  assumes "prompt_invoke (format_instructions env) d = Inr msgs"
  shows "story_chain_invoke env d w =
           (case llm env msgs of Inl e \<Rightarrow> Inl e | Inr reply \<Rightarrow> parser env reply,
            w\<lparr>chain_calls := chain_calls w @ [d], llm_calls := llm_calls w @ [msgs]\<rparr>)"
  using assms
  by (simp add: story_chain_invoke_def Let_def split: sum.splits)

text \<open>The loop over the story's lines adds one text line per element, in the current font.\<close>

lemma fold_textLine:
  "fold (textLine env) ls t =
     t\<lparr>text_lines := text_lines t @ map (\<lambda>l. (snd (font t), unicode2T1 env (fst (font t)) l)) ls\<rparr>"
  by (induction ls arbitrary: t) (simp_all add: textLine_def)

lemma unicode2T1_Nil: "unicode2T1 env f [] = []"
  by (simp add: unicode2T1_def)

text \<open>A text of single bytes below 128 has one character for each byte.\<close>

lemma utf8_chars_ascii:
  "\<forall>c \<in> set s. (of_char c :: nat) < 128 \<Longrightarrow> utf8_chars s = map (\<lambda>c. [c]) s"
proof (induction s)
  case Nil
  then show ?case by simp
next
  case (Cons c cs)
  then have "takeWhile is_continuation cs = []" and "dropWhile is_continuation cs = cs"
    by (cases cs; simp add: is_continuation_def)+
  with Cons show ?case by simp
qed

lemma unicode2T1_written_as_is:
  assumes "written_as_is env f s"
  shows "unicode2T1 env f s = map (Pair f) s"
proof -
  from assms have "utf8_chars s = map (\<lambda>c. [c]) s"
    by (intro utf8_chars_ascii) (simp add: written_as_is_def)
  moreover from assms have "\<forall>c \<in> set s. glyph_of env f [c] = (f, c)"
    by (simp add: written_as_is_def glyph_of_def)
  ultimately show ?thesis
    by (simp add: unicode2T1_def)
qed

lemma py_split_not_Nil: "py_split s c \<noteq> []"
  by (induction s) (auto split: list.splits)

lemma py_split_join: "concat (map (\<lambda>l. l @ [c]) (py_split s c)) = s @ [c]"
  by (induction s) (auto split: list.splits)

lemma py_split_no_sep: "l \<in> set (py_split s c) \<Longrightarrow> c \<notin> set l"
  by (induction s arbitrary: l) (auto split: list.splits if_splits)

lemma generate_pdf_no_name:
  assumes "find (\<lambda>n. files w (n @ ''.pdf'') = None) (tmp_names env) = None"
  shows "generate_pdf env r w = (Inl (OSError ''No usable temporary file name found''), w)"
  using assms by (simp add: generate_pdf_def NamedTemporaryFile_def)

lemma generate_pdf_name:
  assumes "find (\<lambda>n. files w (n @ ''.pdf'') = None) (tmp_names env) = Some n"
  shows "generate_pdf env r w =
           (Inr (n @ ''.pdf''),
            w\<lparr>files := (files w)(n @ ''.pdf'' \<mapsto>
               PdfFile A4
                 [[\<lparr>origin = (40, 800), font = (''Helvetica'', 11),
                    text_lines =
                      [(14, unicode2T1 env ''Helvetica-Bold'' (Topic r)), (14, [])] @
                      map (\<lambda>l. (11, unicode2T1 env ''Helvetica'' l)) (py_split (Story r) CHR ''\<newline>'') @
                      [(11, unicode2T1 env ''Helvetica'' ''\<newline>Moral:''),
                       (11, unicode2T1 env ''Helvetica'' (Moral r))]\<rparr>]])\<rparr>)"
  using assms
  by (simp add: generate_pdf_def NamedTemporaryFile_def Let_def Canvas_def beginText_def
      setFont_def textLine_def fold_textLine unicode2T1_Nil drawText_def showPage_def save_def)

lemma app_pressed:
  assumes "button ui" "user_topic ui \<noteq> []" "name ui \<noteq> []"
  shows "app env ui w =
           (snd (input_controls ui) @ [Button (emoji_sparkles @ '' Generate Story'')] @
              fst (generate_story env ui (fst (input_controls ui)) w),
            snd (generate_story env ui (fst (input_controls ui)) w))"
  using assms by (simp add: app_def Let_def split: prod.splits)

lemma story_chain_invoke_logs:
  "files (snd (story_chain_invoke env d w)) = files w"
  "chain_calls (snd (story_chain_invoke env d w)) = chain_calls w @ [d]"
  by (simp_all add: story_chain_invoke_def Let_def split: sum.splits)

lemma generate_pdf_logs:
  "llm_calls (snd (generate_pdf env r w)) = llm_calls w"
  "chain_calls (snd (generate_pdf env r w)) = chain_calls w"
  by (cases "find (\<lambda>n. files w (n @ ''.pdf'') = None) (tmp_names env)";
      simp add: generate_pdf_no_name generate_pdf_name)+

lemma generate_story_chain_fails:
  assumes "story_chain_invoke env (chain_inputs ui ps) w = (Inl e, w1)"
  shows "generate_story env ui ps w =
           ([Spinner ''Creating your story...'', ErrorMsg ''Story generation failed.'',
             ExceptionMsg e], w1)"
  using assms by (simp add: generate_story_def)

lemma generate_story_pdf_fails:
  assumes "story_chain_invoke env (chain_inputs ui ps) w = (Inr r, w1)"
    and "find (\<lambda>n. files w1 (n @ ''.pdf'') = None) (tmp_names env) = None"
  shows "generate_story env ui ps w =
           ([Spinner ''Creating your story...'',
             Subheader (emoji_pin @ '' Topic''), Write (Topic r),
             Subheader (emoji_books @ '' Story''), Write (Story r)] @
            (if genre ui = ''Motivational'' \<or> genre ui = ''Educational''
             then [Subheader (emoji_seedling @ '' Moral''), Write (Moral r)] else []) @
            [ErrorMsg ''Story generation failed.'',
             ExceptionMsg (OSError ''No usable temporary file name found'')], w1)"
  using assms by (simp add: generate_story_def generate_pdf_no_name)

lemma generate_story_succeeds:
  assumes "story_chain_invoke env (chain_inputs ui ps) w = (Inr r, w1)"
    and "find (\<lambda>n. files w1 (n @ ''.pdf'') = None) (tmp_names env) = Some n"
  shows "generate_story env ui ps w =
           ([Spinner ''Creating your story...'',
             Subheader (emoji_pin @ '' Topic''), Write (Topic r),
             Subheader (emoji_books @ '' Story''), Write (Story r)] @
            (if genre ui = ''Motivational'' \<or> genre ui = ''Educational''
             then [Subheader (emoji_seedling @ '' Moral''), Write (Moral r)] else []) @
            [DownloadButton (emoji_page @ '' Download as PDF'')
               (PdfFile A4
                 [[\<lparr>origin = (40, 800), font = (''Helvetica'', 11),
                    text_lines =
                      [(14, unicode2T1 env ''Helvetica-Bold'' (Topic r)), (14, [])] @
                      map (\<lambda>l. (11, unicode2T1 env ''Helvetica'' l)) (py_split (Story r) CHR ''\<newline>'') @
                      [(11, unicode2T1 env ''Helvetica'' ''\<newline>Moral:''),
                       (11, unicode2T1 env ''Helvetica'' (Moral r))]\<rparr>]])
               ''story.pdf'' ''application/pdf''],
            snd (generate_pdf env r w1))"
  using assms by (simp add: generate_story_def generate_pdf_name open_rb_def)

lemma generate_story_no_checkbox: "Checkbox l b \<notin> set (fst (generate_story env ui ps w))"
proof (cases "story_chain_invoke env (chain_inputs ui ps) w")
  case (Pair res w1)
  show ?thesis
  proof (cases res)
    case (Inl e)
    with Pair show ?thesis by (simp add: generate_story_chain_fails)
  next
    case (Inr r)
    with Pair show ?thesis
      by (cases "find (\<lambda>n. files w1 (n @ ''.pdf'') = None) (tmp_names env)")
         (simp_all add: generate_story_pdf_fails generate_story_succeeds)
  qed
qed

lemma generate_story_chain_calls:
  "chain_calls (snd (generate_story env ui ps w)) = chain_calls w @ [chain_inputs ui ps]"
proof (cases "story_chain_invoke env (chain_inputs ui ps) w")
  case (Pair res w1)
  then have w1: "chain_calls w1 = chain_calls w @ [chain_inputs ui ps]"
    using story_chain_invoke_logs(2) [of env "chain_inputs ui ps" w] by simp
  show ?thesis
  proof (cases res)
    case (Inl e)
    with Pair w1 show ?thesis by (simp add: generate_story_chain_fails)
  next
    case (Inr r)
    with Pair w1 show ?thesis
      by (cases "find (\<lambda>n. files w1 (n @ ''.pdf'') = None) (tmp_names env)")
         (simp_all add: generate_story_pdf_fails generate_story_succeeds generate_pdf_logs)
  qed
qed

lemma generate_pdf_Inl:
  assumes "fst (generate_pdf env r w) = Inl e"
  shows "find (\<lambda>n. files w (n @ ''.pdf'') = None) (tmp_names env) = None \<and>
         e = OSError ''No usable temporary file name found''"
  using assms
  by (cases "find (\<lambda>n. files w (n @ ''.pdf'') = None) (tmp_names env)")
     (simp_all add: generate_pdf_no_name generate_pdf_name)

lemma input_controls_plain:
  "Subheader s \<notin> set (snd (input_controls ui))"
  "Write s \<notin> set (snd (input_controls ui))"
  "ExceptionMsg e \<notin> set (snd (input_controls ui))"
  "DownloadButton l f n m \<notin> set (snd (input_controls ui))"
  by (simp_all add: input_controls_def Let_def)

lemma generate_story_llm_calls:
  assumes "prompt_invoke (format_instructions env) (chain_inputs ui ps) = Inr msgs"
  shows "llm_calls (snd (generate_story env ui ps w)) = llm_calls w @ [msgs]"
proof (cases "story_chain_invoke env (chain_inputs ui ps) w")
  case (Pair res w1)
  then have w1: "llm_calls w1 = llm_calls w @ [msgs]"
    by (auto simp add: story_chain_invoke_eq [OF assms])
  show ?thesis
  proof (cases res)
    case (Inl e)
    with Pair w1 show ?thesis by (simp add: generate_story_chain_fails)
  next
    case (Inr r)
    with Pair w1 show ?thesis
      by (cases "find (\<lambda>n. files w1 (n @ ''.pdf'') = None) (tmp_names env)")
         (simp_all add: generate_story_pdf_fails generate_story_succeeds generate_pdf_logs)
  qed
qed

text \<open>In the example environment the chain returns the example story.\<close>

lemma example_chain_succeeds:
  "story_chain_invoke example_env (chain_inputs ui ps) w =
     (Inr example_story, snd (story_chain_invoke example_env (chain_inputs ui ps) w))"
proof -
  obtain msgs where msgs: "prompt_invoke (format_instructions example_env) (chain_inputs ui ps) = Inr msgs"
    using prompt_invoke_chain_inputs by blast
  show ?thesis
    by (subst (1 2) story_chain_invoke_eq [OF msgs]) (simp add: example_env_def)
qed

text \<open>Two dictionaries with the same prompt give the same cycle, up to the log of dictionaries.\<close>

lemma sublist_append_left: "sublist xs ys \<Longrightarrow> sublist xs (zs @ ys)"
  unfolding sublist_def by (metis append.assoc)

lemma story_chain_invoke_same_prompt:
  assumes "prompt_invoke (format_instructions env) d' = prompt_invoke (format_instructions env) d"
  shows "fst (story_chain_invoke env d' w) = fst (story_chain_invoke env d w)"
    and "llm_calls (snd (story_chain_invoke env d' w)) = llm_calls (snd (story_chain_invoke env d w))"
  using assms by (simp_all add: story_chain_invoke_def Let_def split: sum.splits)

lemma generate_story_same_prompt:
  assumes "genre ui' = genre ui"
    and "prompt_invoke (format_instructions env) (chain_inputs ui' ps') =
         prompt_invoke (format_instructions env) (chain_inputs ui ps)"
  shows "fst (generate_story env ui' ps' w) = fst (generate_story env ui ps w)"
    and "llm_calls (snd (generate_story env ui' ps' w)) = llm_calls (snd (generate_story env ui ps w))"
proof -
  obtain msgs where msgs: "prompt_invoke (format_instructions env) (chain_inputs ui ps) = Inr msgs"
    using prompt_invoke_chain_inputs by blast
  with assms(2) have msgs': "prompt_invoke (format_instructions env) (chain_inputs ui' ps') = Inr msgs"
    by simp
  show "llm_calls (snd (generate_story env ui' ps' w)) = llm_calls (snd (generate_story env ui ps w))"
    by (simp add: generate_story_llm_calls [OF msgs] generate_story_llm_calls [OF msgs'])
  obtain res w1 where c: "story_chain_invoke env (chain_inputs ui ps) w = (res, w1)"
    by (cases "story_chain_invoke env (chain_inputs ui ps) w")
  obtain res' w1' where c': "story_chain_invoke env (chain_inputs ui' ps') w = (res', w1')"
    by (cases "story_chain_invoke env (chain_inputs ui' ps') w")
  have res: "res' = res"
    using story_chain_invoke_same_prompt(1) [OF assms(2), of w] c c' by simp
  have f: "files w1 = files w" "files w1' = files w"
    using story_chain_invoke_logs(1) [of env "chain_inputs ui ps" w]
      story_chain_invoke_logs(1) [of env "chain_inputs ui' ps'" w] c c' by simp_all
  show "fst (generate_story env ui' ps' w) = fst (generate_story env ui ps w)"
  proof (cases res)
    case (Inl e)
    with c c' res show ?thesis
      by (simp add: generate_story_chain_fails)
  next
    case (Inr r)
    show ?thesis
    proof (cases "find (\<lambda>n. files w (n @ ''.pdf'') = None) (tmp_names env)")
      case None
      with c c' res Inr f assms(1) show ?thesis
        by (simp add: generate_story_pdf_fails)
    next
      case (Some n)
      with c c' res Inr f assms(1) show ?thesis
        by (simp add: generate_story_succeeds)
    qed
  qed
qed

lemma app_llm_calls:
  assumes "button ui" and "user_topic ui \<noteq> []" and "name ui \<noteq> []"
  shows "\<exists>msgs. prompt_invoke (format_instructions env) (chain_inputs ui (fst (input_controls ui))) = Inr msgs \<and>
           llm_calls (snd (app env ui w)) = llm_calls w @ [msgs]"
proof -
  obtain msgs where
    msgs: "prompt_invoke (format_instructions env) (chain_inputs ui (fst (input_controls ui))) = Inr msgs"
    using prompt_invoke_chain_inputs by blast
  then have "llm_calls (snd (app env ui w)) = llm_calls w @ [msgs]"
    using assms by (simp add: app_pressed generate_story_llm_calls)
  with msgs show ?thesis by blast
qed

text \<open>The brace-free rest of the human template holds the table of age guidelines.\<close>

lemma age_guidelines_in_tail:
  "sublist
     (concat
        [''Age Guidelines:\<newline>'',
         ''        - Age 3'', en_dash, ''6: Very simple words, cheerful tone, short sentences\<newline>'',
         ''        - Age 7'', en_dash, ''12: Simple plot, light adventure, positive moral\<newline>'',
         ''        - Age 13'', en_dash, ''17: Deeper emotions, character growth, mild conflict\<newline>'',
         ''        - Age 18+: Mature themes, nuanced characters, richer language\<newline>''])
     (drop 202 human_template)"
  by code_simp

lemma age_7_12_in_tail:
  "sublist (''- Age 7'' @ en_dash @ ''12: Simple plot, light adventure, positive moral'')
     (drop 202 human_template)"
  by code_simp

section \<open>The claims\<close>

subsection \<open>Input validation and the parent-safe flag\<close>

text \<open>
  C2. When the button is pressed while the topic or the character's name is empty, the
  page shows the input widgets, the button and the warning, and nothing else; the world
  is unchanged: no dictionary reaches the chain and no prompt reaches the model.
\<close>

theorem empty_field_warns_without_generation:
  assumes "button ui" and "user_topic ui = [] \<or> name ui = []"
  shows "app env ui w =
           (snd (input_controls ui) @
              [Button (emoji_sparkles @ '' Generate Story''),
               Warning ''Please fill all required fields.''], w) \<and>
         llm_calls (snd (app env ui w)) = llm_calls w \<and>
         chain_calls (snd (app env ui w)) = chain_calls w"
  using assms by (auto simp add: app_def Let_def split: prod.splits)

theorem empty_field_warns_without_generation_witness:
  "button (example_ui\<lparr>name := []\<rparr>) \<and> name (example_ui\<lparr>name := []\<rparr>) = [] \<and>
   fst (app example_env (example_ui\<lparr>name := []\<rparr>) example_world) =
     snd (input_controls (example_ui\<lparr>name := []\<rparr>)) @
       [Button (emoji_sparkles @ '' Generate Story''),
        Warning ''Please fill all required fields.''] \<and>
   llm_calls (snd (app example_env (example_ui\<lparr>name := []\<rparr>) example_world)) = []"
  using empty_field_warns_without_generation
          [of "example_ui\<lparr>name := []\<rparr>" example_env example_world]
  by (simp add: example_ui_def example_world_def)

text \<open>
  C3. Above age 18 no checkbox is on the page and the dictionary given to the chain
  carries the flag False, whatever the stored checkbox state; up to age 18 the checkbox
  is on the page (ticked by default) and the dictionary carries its value.
\<close>

theorem parent_safe_forced_off_above_18:
  "(18 < age ui \<longrightarrow>
      (\<forall>l b. Checkbox l b \<notin> set (fst (app env ui w))) \<and>
      (button ui \<and> user_topic ui \<noteq> [] \<and> name ui \<noteq> [] \<longrightarrow>
         chain_calls (snd (app env ui w)) = chain_calls w @ [chain_inputs ui False])) \<and>
   (age ui \<le> 18 \<longrightarrow>
      Checkbox (emoji_child @ '' Parent-safe content mode'') True \<in> set (fst (app env ui w)) \<and>
      (button ui \<and> user_topic ui \<noteq> [] \<and> name ui \<noteq> [] \<longrightarrow>
         chain_calls (snd (app env ui w)) = chain_calls w @ [chain_inputs ui (checkbox ui)])) \<and>
   map_of (chain_inputs ui ps) ''parent_safe'' = Some (PBool ps)"
proof (intro conjI impI allI)
  fix l b
  assume "18 < age ui"
  then have none: "Checkbox l b \<notin> set (snd (input_controls ui))"
    by (simp add: input_controls_def Let_def)
  show "Checkbox l b \<notin> set (fst (app env ui w))"
  proof (cases "button ui \<and> user_topic ui \<noteq> [] \<and> name ui \<noteq> []")
    case True
    with none show ?thesis
      by (simp add: app_pressed generate_story_no_checkbox)
  next
    case False
    with none show ?thesis
      by (auto simp add: app_def Let_def split: prod.splits)
  qed
next
  assume "18 < age ui" "button ui \<and> user_topic ui \<noteq> [] \<and> name ui \<noteq> []"
  then show "chain_calls (snd (app env ui w)) = chain_calls w @ [chain_inputs ui False]"
    by (simp add: app_pressed generate_story_chain_calls input_controls_def Let_def)
next
  assume "age ui \<le> 18"
  then show "Checkbox (emoji_child @ '' Parent-safe content mode'') True \<in> set (fst (app env ui w))"
    by (auto simp add: app_def Let_def input_controls_def split: prod.splits)
next
  assume "age ui \<le> 18" "button ui \<and> user_topic ui \<noteq> [] \<and> name ui \<noteq> []"
  then show "chain_calls (snd (app env ui w)) = chain_calls w @ [chain_inputs ui (checkbox ui)]"
    by (simp add: app_pressed generate_story_chain_calls input_controls_def Let_def)
next
  show "map_of (chain_inputs ui ps) ''parent_safe'' = Some (PBool ps)"
    by (simp add: chain_inputs_def)
qed


theorem parent_safe_forced_off_above_18_witness:
  "18 < age (example_ui\<lparr>age := 30\<rparr>) \<and>
   (\<forall>l b. Checkbox l b \<notin> set (fst (app example_env (example_ui\<lparr>age := 30\<rparr>) example_world))) \<and>
   chain_calls (snd (app example_env (example_ui\<lparr>age := 30\<rparr>) example_world)) =
     [chain_inputs (example_ui\<lparr>age := 30\<rparr>) False] \<and>
   age example_ui \<le> 18 \<and>
   Checkbox (emoji_child @ '' Parent-safe content mode'') True
     \<in> set (fst (app example_env example_ui example_world)) \<and>
   chain_calls (snd (app example_env (example_ui\<lparr>checkbox := False\<rparr>) example_world)) =
     [chain_inputs (example_ui\<lparr>checkbox := False\<rparr>) False]"
  using parent_safe_forced_off_above_18 [of "example_ui\<lparr>age := 30\<rparr>" example_env example_world]
    parent_safe_forced_off_above_18 [of example_ui example_env example_world]
    parent_safe_forced_off_above_18 [of "example_ui\<lparr>checkbox := False\<rparr>" example_env example_world]
  by (simp add: example_ui_def example_world_def)

subsection \<open>Failures of a generation cycle\<close>






text \<open>
  C4, as stated, fails: when the chain succeeds and the temporary file cannot be created,
  the exception is raised after the topic and the story have been written to the page,
  so the page of that request shows both the result and the failure.
\<close>

theorem failure_after_display_counterexample:
  "\<not> (\<forall>env ui w e. button ui \<and> ExceptionMsg e \<in> set (fst (app env ui w)) \<longrightarrow>
         (\<forall>s. Write s \<notin> set (fst (app env ui w))))"
proof
  let ?env = "example_env\<lparr>tmp_names := []\<rparr>"
  let ?d = "chain_inputs example_ui (fst (input_controls example_ui))"
  assume claim: "\<forall>env ui w e. button ui \<and> ExceptionMsg e \<in> set (fst (app env ui w)) \<longrightarrow>
                   (\<forall>s. Write s \<notin> set (fst (app env ui w)))"
  obtain msgs where msgs: "prompt_invoke (format_instructions ?env) ?d = Inr msgs"
    using prompt_invoke_chain_inputs by blast
  have chain: "story_chain_invoke ?env ?d example_world =
                 (Inr example_story,
                  example_world\<lparr>chain_calls := chain_calls example_world @ [?d],
                                llm_calls := llm_calls example_world @ [msgs]\<rparr>)"
    by (subst story_chain_invoke_eq [OF msgs]) (simp add: example_env_def)
  have no_name: "find (\<lambda>n. files (example_world\<lparr>chain_calls := chain_calls example_world @ [?d],
                                llm_calls := llm_calls example_world @ [msgs]\<rparr>) (n @ ''.pdf'') = None)
                   (tmp_names ?env) = None"
    by simp
  have pre: "button example_ui" "user_topic example_ui \<noteq> []" "name example_ui \<noteq> []"
    by (simp_all add: example_ui_def)
  have out: "fst (app ?env example_ui example_world) =
               snd (input_controls example_ui) @
                 [Button (emoji_sparkles @ '' Generate Story''),
                  Spinner ''Creating your story...'',
                  Subheader (emoji_pin @ '' Topic''), Write (Topic example_story),
                  Subheader (emoji_books @ '' Story''), Write (Story example_story),
                  ErrorMsg ''Story generation failed.'',
                  ExceptionMsg (OSError ''No usable temporary file name found'')]"
    using pre
    by (simp add: app_pressed generate_story_pdf_fails [OF chain no_name])
       (simp add: example_ui_def)
  have "ExceptionMsg (OSError ''No usable temporary file name found'')
          \<in> set (fst (app ?env example_ui example_world))"
    by (simp add: out)
  with claim pre(1) have "Write (Topic example_story) \<notin> set (fst (app ?env example_ui example_world))"
    by blast
  then show False
    by (simp add: out)
qed

text \<open>
  C4, amended. With the button pressed and both fields filled, the handler runs the
  chain once. When the chain raises \<open>e\<close>, the page is the widgets, the button, the
  spinner, the failure message and the detail of \<open>e\<close>, and nothing of a result. When
  the chain returns a result and the PDF routine raises \<open>e\<close>, the page ends with the
  failure message and the detail of \<open>e\<close> after the topic and the story (and the moral
  for the two moral genres), which were written before. In either case the page has no
  download control.
\<close>

theorem generation_failure_is_reported:
  assumes "button ui" and "user_topic ui \<noteq> []" and "name ui \<noteq> []"
  shows "chain_calls (snd (app env ui w)) =
           chain_calls w @ [chain_inputs ui (fst (input_controls ui))] \<and>
         (\<forall>e. fst (story_chain_invoke env (chain_inputs ui (fst (input_controls ui))) w) = Inl e \<longrightarrow>
            fst (app env ui w) =
              snd (input_controls ui) @
                [Button (emoji_sparkles @ '' Generate Story''),
                 Spinner ''Creating your story...'',
                 ErrorMsg ''Story generation failed.'',
                 ExceptionMsg e]) \<and>
         (\<forall>r e. fst (story_chain_invoke env (chain_inputs ui (fst (input_controls ui))) w) = Inr r \<and>
                fst (generate_pdf env r
                       (snd (story_chain_invoke env (chain_inputs ui (fst (input_controls ui))) w))) = Inl e \<longrightarrow>
            fst (app env ui w) =
              snd (input_controls ui) @
                [Button (emoji_sparkles @ '' Generate Story''),
                 Spinner ''Creating your story...'',
                 Subheader (emoji_pin @ '' Topic''), Write (Topic r),
                 Subheader (emoji_books @ '' Story''), Write (Story r)] @
                (if genre ui = ''Motivational'' \<or> genre ui = ''Educational''
                 then [Subheader (emoji_seedling @ '' Moral''), Write (Moral r)] else []) @
                [ErrorMsg ''Story generation failed.'', ExceptionMsg e]) \<and>
         (\<forall>e. ExceptionMsg e \<in> set (fst (app env ui w)) \<longrightarrow>
            (\<forall>l f n m. DownloadButton l f n m \<notin> set (fst (app env ui w))))"
proof -
  let ?ps = "fst (input_controls ui)"
  let ?d = "chain_inputs ui ?ps"
  obtain res w1 where chain: "story_chain_invoke env ?d w = (res, w1)"
    by (cases "story_chain_invoke env ?d w")
  have calls: "chain_calls (snd (app env ui w)) = chain_calls w @ [?d]"
    using assms by (simp add: app_pressed generate_story_chain_calls)
  have chain_fails: "fst (app env ui w) =
                snd (input_controls ui) @
                  [Button (emoji_sparkles @ '' Generate Story''),
                   Spinner ''Creating your story...'',
                   ErrorMsg ''Story generation failed.'',
                   ExceptionMsg e]"
    if "res = Inl e" for e
    using assms chain that by (simp add: app_pressed generate_story_chain_fails)
  have pdf_fails: "fst (app env ui w) =
                snd (input_controls ui) @
                  [Button (emoji_sparkles @ '' Generate Story''),
                   Spinner ''Creating your story...'',
                   Subheader (emoji_pin @ '' Topic''), Write (Topic r),
                   Subheader (emoji_books @ '' Story''), Write (Story r)] @
                  (if genre ui = ''Motivational'' \<or> genre ui = ''Educational''
                   then [Subheader (emoji_seedling @ '' Moral''), Write (Moral r)] else []) @
                  [ErrorMsg ''Story generation failed.'', ExceptionMsg e]"
    if "res = Inr r" and "fst (generate_pdf env r w1) = Inl e" for r e
  proof -
    from that(2) have "find (\<lambda>n. files w1 (n @ ''.pdf'') = None) (tmp_names env) = None"
      and "e = OSError ''No usable temporary file name found''"
      using generate_pdf_Inl by blast+
    with assms chain that(1) show ?thesis
      by (simp add: app_pressed generate_story_pdf_fails)
  qed
  have no_download: "DownloadButton l f n m \<notin> set (fst (app env ui w))"
    if "ExceptionMsg e \<in> set (fst (app env ui w))" for e l f n m
  proof (cases res)
    case (Inl e')
    then show ?thesis
      by (simp add: chain_fails input_controls_plain)
  next
    case (Inr r)
    show ?thesis
    proof (cases "find (\<lambda>n. files w1 (n @ ''.pdf'') = None) (tmp_names env)")
      case None
      then have "fst (generate_pdf env r w1) = Inl (OSError ''No usable temporary file name found'')"
        by (simp add: generate_pdf_no_name)
      with Inr show ?thesis
        by (simp add: pdf_fails input_controls_plain)
    next
      case (Some a)
      with assms chain Inr have "ExceptionMsg e \<notin> set (fst (app env ui w))"
        by (simp add: app_pressed generate_story_succeeds input_controls_plain)
      with that show ?thesis by simp
    qed
  qed
  show ?thesis
    using calls chain chain_fails pdf_fails no_download
    by (intro conjI allI impI) auto
qed

theorem generation_failure_is_reported_witness:
  "button example_ui \<and> user_topic example_ui \<noteq> [] \<and> name example_ui \<noteq> [] \<and>
   fst (app (example_env\<lparr>llm := \<lambda>msgs. Inl (APIError ''Connection error.'')\<rparr>)
          example_ui example_world) =
     snd (input_controls example_ui) @
       [Button (emoji_sparkles @ '' Generate Story''),
        Spinner ''Creating your story...'',
        ErrorMsg ''Story generation failed.'',
        ExceptionMsg (APIError ''Connection error.'')] \<and>
   length (chain_calls (snd (app (example_env\<lparr>llm := \<lambda>msgs. Inl (APIError ''Connection error.'')\<rparr>)
          example_ui example_world))) = 1"
proof -
  let ?env = "example_env\<lparr>llm := \<lambda>msgs. Inl (APIError ''Connection error.'')\<rparr>"
  let ?d = "chain_inputs example_ui (fst (input_controls example_ui))"
  have pre: "button example_ui" "user_topic example_ui \<noteq> []" "name example_ui \<noteq> []"
    by (simp_all add: example_ui_def)
  obtain msgs where msgs: "prompt_invoke (format_instructions ?env) ?d = Inr msgs"
    using prompt_invoke_chain_inputs by blast
  have "fst (story_chain_invoke ?env ?d example_world) = Inl (APIError ''Connection error.'')"
    by (subst story_chain_invoke_eq [OF msgs]) simp
  with generation_failure_is_reported [OF pre, of ?env example_world] pre
  show ?thesis
    by (auto simp add: example_world_def)
qed

subsection \<open>What a successful cycle shows\<close>

text \<open>
  C5. With the button pressed, both fields filled and a result \<open>r\<close> from the chain, the
  page continues after the spinner with the topic heading and the topic, the story
  heading and the story, then, exactly when the genre is Motivational or Educational,
  the moral heading and the moral, and after that only the download control or the
  failure report of the PDF step: no further heading and no further text. So the moral
  heading is on the page if and only if the genre is one of the two.
\<close>

theorem moral_shown_only_for_moral_genres:
  assumes "button ui" and "user_topic ui \<noteq> []" and "name ui \<noteq> []"
    and "fst (story_chain_invoke env (chain_inputs ui (fst (input_controls ui))) w) = Inr r"
  shows "(\<exists>rest.
            fst (app env ui w) =
              snd (input_controls ui) @
                [Button (emoji_sparkles @ '' Generate Story''),
                 Spinner ''Creating your story...'',
                 Subheader (emoji_pin @ '' Topic''), Write (Topic r),
                 Subheader (emoji_books @ '' Story''), Write (Story r)] @
                (if genre ui = ''Motivational'' \<or> genre ui = ''Educational''
                 then [Subheader (emoji_seedling @ '' Moral''), Write (Moral r)] else []) @
                rest \<and>
            (\<forall>x \<in> set rest. \<forall>s. x \<noteq> Subheader s \<and> x \<noteq> Write s)) \<and>
         (Subheader (emoji_seedling @ '' Moral'') \<in> set (fst (app env ui w)) \<longleftrightarrow>
            genre ui = ''Motivational'' \<or> genre ui = ''Educational'')"
proof -
  let ?d = "chain_inputs ui (fst (input_controls ui))"
  obtain w1 where chain: "story_chain_invoke env ?d w = (Inr r, w1)"
    using assms(4) by (cases "story_chain_invoke env ?d w") simp
  have labels: "emoji_seedling @ '' Moral'' \<noteq> emoji_pin @ '' Topic''"
    "emoji_seedling @ '' Moral'' \<noteq> emoji_books @ '' Story''"
    by (simp_all add: emoji_seedling_def emoji_pin_def emoji_books_def)
  show ?thesis
  proof (cases "find (\<lambda>n. files w1 (n @ ''.pdf'') = None) (tmp_names env)")
    case None
    have out: "fst (app env ui w) =
              snd (input_controls ui) @
                [Button (emoji_sparkles @ '' Generate Story''),
                 Spinner ''Creating your story...'',
                 Subheader (emoji_pin @ '' Topic''), Write (Topic r),
                 Subheader (emoji_books @ '' Story''), Write (Story r)] @
                (if genre ui = ''Motivational'' \<or> genre ui = ''Educational''
                 then [Subheader (emoji_seedling @ '' Moral''), Write (Moral r)] else []) @
                [ErrorMsg ''Story generation failed.'',
                 ExceptionMsg (OSError ''No usable temporary file name found'')]"
      using assms(1-3) by (simp add: app_pressed generate_story_pdf_fails [OF chain None])
    have "\<forall>x \<in> set [ErrorMsg ''Story generation failed.'',
                 ExceptionMsg (OSError ''No usable temporary file name found'')].
            \<forall>s. x \<noteq> Subheader s \<and> x \<noteq> Write s"
      by simp
    with out have first: "\<exists>rest.
            fst (app env ui w) =
              snd (input_controls ui) @
                [Button (emoji_sparkles @ '' Generate Story''),
                 Spinner ''Creating your story...'',
                 Subheader (emoji_pin @ '' Topic''), Write (Topic r),
                 Subheader (emoji_books @ '' Story''), Write (Story r)] @
                (if genre ui = ''Motivational'' \<or> genre ui = ''Educational''
                 then [Subheader (emoji_seedling @ '' Moral''), Write (Moral r)] else []) @
                rest \<and>
            (\<forall>x \<in> set rest. \<forall>s. x \<noteq> Subheader s \<and> x \<noteq> Write s)"
      by blast
    have "Subheader (emoji_seedling @ '' Moral'') \<in> set (fst (app env ui w)) \<longleftrightarrow>
            genre ui = ''Motivational'' \<or> genre ui = ''Educational''"
      using labels by (simp add: out input_controls_plain)
    with first show ?thesis by blast
  next
    case (Some n)
    let ?button = "DownloadButton (emoji_page @ '' Download as PDF'')
               (PdfFile A4
                 [[\<lparr>origin = (40, 800), font = (''Helvetica'', 11),
                    text_lines =
                      [(14, unicode2T1 env ''Helvetica-Bold'' (Topic r)), (14, [])] @
                      map (\<lambda>l. (11, unicode2T1 env ''Helvetica'' l)) (py_split (Story r) CHR ''\<newline>'') @
                      [(11, unicode2T1 env ''Helvetica'' ''\<newline>Moral:''),
                       (11, unicode2T1 env ''Helvetica'' (Moral r))]\<rparr>]])
               ''story.pdf'' ''application/pdf''"
    have out: "fst (app env ui w) =
              snd (input_controls ui) @
                [Button (emoji_sparkles @ '' Generate Story''),
                 Spinner ''Creating your story...'',
                 Subheader (emoji_pin @ '' Topic''), Write (Topic r),
                 Subheader (emoji_books @ '' Story''), Write (Story r)] @
                (if genre ui = ''Motivational'' \<or> genre ui = ''Educational''
                 then [Subheader (emoji_seedling @ '' Moral''), Write (Moral r)] else []) @
                [?button]"
      using assms(1-3) by (simp add: app_pressed generate_story_succeeds [OF chain Some])
    have "\<forall>x \<in> set [?button]. \<forall>s. x \<noteq> Subheader s \<and> x \<noteq> Write s"
      by simp
    with out have first: "\<exists>rest.
            fst (app env ui w) =
              snd (input_controls ui) @
                [Button (emoji_sparkles @ '' Generate Story''),
                 Spinner ''Creating your story...'',
                 Subheader (emoji_pin @ '' Topic''), Write (Topic r),
                 Subheader (emoji_books @ '' Story''), Write (Story r)] @
                (if genre ui = ''Motivational'' \<or> genre ui = ''Educational''
                 then [Subheader (emoji_seedling @ '' Moral''), Write (Moral r)] else []) @
                rest \<and>
            (\<forall>x \<in> set rest. \<forall>s. x \<noteq> Subheader s \<and> x \<noteq> Write s)"
      by blast
    have "Subheader (emoji_seedling @ '' Moral'') \<in> set (fst (app env ui w)) \<longleftrightarrow>
            genre ui = ''Motivational'' \<or> genre ui = ''Educational''"
      using labels by (simp add: out input_controls_plain)
    with first show ?thesis by blast
  qed
qed

theorem moral_shown_only_for_moral_genres_witness:
  "button example_ui \<and> user_topic example_ui \<noteq> [] \<and> name example_ui \<noteq> [] \<and>
   genre example_ui = ''Adventure'' \<and>
   Subheader (emoji_seedling @ '' Moral'') \<notin> set (fst (app example_env example_ui example_world)) \<and>
   Subheader (emoji_seedling @ '' Moral'')
     \<in> set (fst (app example_env (example_ui\<lparr>genre := ''Motivational''\<rparr>) example_world))"
proof -
  have pre: "button example_ui" "user_topic example_ui \<noteq> []" "name example_ui \<noteq> []"
    by (simp_all add: example_ui_def)
  have pre': "button (example_ui\<lparr>genre := ''Motivational''\<rparr>)"
    "user_topic (example_ui\<lparr>genre := ''Motivational''\<rparr>) \<noteq> []"
    "name (example_ui\<lparr>genre := ''Motivational''\<rparr>) \<noteq> []"
    by (simp_all add: example_ui_def)
  have chain: "fst (story_chain_invoke example_env (chain_inputs ui ps) example_world) = Inr example_story"
    for ui ps
    using example_chain_succeeds [of ui ps example_world] by (metis fst_conv)
  have a: "genre example_ui = ''Adventure''"
    by (simp add: example_ui_def)
  have b: "genre (example_ui\<lparr>genre := ''Motivational''\<rparr>) = ''Motivational''"
    by simp
  from moral_shown_only_for_moral_genres [OF pre chain]
    moral_shown_only_for_moral_genres [OF pre' chain]
  show ?thesis
    using pre by (simp add: a b)
qed

subsection \<open>The PDF document\<close>

text \<open>The example tables on the example texts.\<close>

lemma example_label_line:
  "unicode2T1 example_env ''Helvetica'' ''\<newline>Moral:'' =
     (''ZapfDingbats'', CHR ''n'') # map (Pair ''Helvetica'') ''Moral:''"
  by (simp add: unicode2T1_def glyph_of_def notdef_glyph_def example_env_def ascii_codec_def
      is_continuation_def)

lemma hindi_lines:
  "unicode2T1 example_env ''Helvetica-Bold'' (Topic hindi_story) =
     replicate 6 (''ZapfDingbats'', CHR ''n'')"
  "unicode2T1 example_env ''Helvetica'' (Moral hindi_story) =
     replicate 4 (''ZapfDingbats'', CHR ''n'')"
  by code_simp+

lemma example_written_as_is:
  "written_as_is example_env ''Helvetica'' ''Moral:''"
  "written_as_is example_env ''Helvetica-Bold'' (Topic example_story)"
  "written_as_is example_env ''Helvetica'' (Moral example_story)"
  by (simp_all add: written_as_is_def example_env_def ascii_codec_def example_story_def)

lemma label_line:
  assumes "written_as_is env ''Helvetica'' ''Moral:''"
  shows "unicode2T1 env ''Helvetica'' ''\<newline>Moral:'' =
           glyph_of env ''Helvetica'' ''\<newline>'' # map (Pair ''Helvetica'') ''Moral:''"
  using assms
  by (simp add: unicode2T1_def written_as_is_def glyph_of_def is_continuation_def)

text \<open>
  C6, as stated, fails: the lines of the document are not the strings of the result
  but their glyphs in the font. For the story in Hindi the first line is six filled
  squares, not the title; and for the story of the example, which is plain ASCII, the
  label line is a filled square followed by \<open>Moral:\<close>, because the source's label
  begins with a newline character, which no font has.
\<close>

theorem hindi_title_counterexample:
  "fst (generate_pdf example_env hindi_story example_world) = Inr ''/tmp/tmpa1b2c3.pdf'' \<and>
   (\<exists>t rest.
      files (snd (generate_pdf example_env hindi_story example_world)) ''/tmp/tmpa1b2c3.pdf'' =
        Some (PdfFile A4 [[t]]) \<and>
      text_lines t = (14, replicate 6 (''ZapfDingbats'', CHR ''n'')) # rest) \<and>
   (\<exists>t first.
      files (snd (generate_pdf example_env example_story example_world)) ''/tmp/tmpa1b2c3.pdf'' =
        Some (PdfFile A4 [[t]]) \<and>
      text_lines t =
        first @ [(11, (''ZapfDingbats'', CHR ''n'') # map (Pair ''Helvetica'') ''Moral:''),
                 (11, map (Pair ''Helvetica'') ''Be brave.'')])"
proof -
  have free: "find (\<lambda>n. files example_world (n @ ''.pdf'') = None) (tmp_names example_env) =
                Some ''/tmp/tmpa1b2c3''"
    by (simp add: example_world_def example_env_def)
  have moral: "unicode2T1 example_env ''Helvetica'' (Moral example_story) =
                 map (Pair ''Helvetica'') ''Be brave.''"
    using unicode2T1_written_as_is [OF example_written_as_is(3)]
    by (simp add: example_story_def)
  have "fst (generate_pdf example_env hindi_story example_world) = Inr ''/tmp/tmpa1b2c3.pdf''"
    by (simp add: generate_pdf_name [OF free])
  moreover have "\<exists>t rest.
      files (snd (generate_pdf example_env hindi_story example_world)) ''/tmp/tmpa1b2c3.pdf'' =
        Some (PdfFile A4 [[t]]) \<and>
      text_lines t = (14, replicate 6 (''ZapfDingbats'', CHR ''n'')) # rest"
    by (simp add: generate_pdf_name [OF free] hindi_lines)
  moreover have "\<exists>t first.
      files (snd (generate_pdf example_env example_story example_world)) ''/tmp/tmpa1b2c3.pdf'' =
        Some (PdfFile A4 [[t]]) \<and>
      text_lines t =
        first @ [(11, (''ZapfDingbats'', CHR ''n'') # map (Pair ''Helvetica'') ''Moral:''),
                 (11, map (Pair ''Helvetica'') ''Be brave.'')]"
    unfolding generate_pdf_name [OF free] example_label_line moral
    by (simp del: append_Cons map_append)
  ultimately show ?thesis by blast
qed

text \<open>
  C6, amended. When a temporary name is free, the PDF routine returns the path of a
  file that did not exist before and that now holds a document of one A4 page with one
  text object starting at (40, 800); no other file changes. Its lines are: the topic in
  size 14, an empty line, then in size 11 one line for each piece of the story between
  newlines (the pieces joined by newlines are the story, and no piece contains a
  newline), the label line and the moral. Each line is the glyphs of its string in
  Helvetica-Bold (the first two) or Helvetica: a string that the font writes as it is
  gives its own characters in that font, so such a topic is the first line in the bold
  font; the label line ends with \<open>Moral:\<close> in Helvetica; and a character that neither
  the font nor Symbol nor ZapfDingbats has gives a filled square.
\<close>

theorem generate_pdf_document:
  assumes "find (\<lambda>n. files w (n @ ''.pdf'') = None) (tmp_names env) = Some n"
  shows "fst (generate_pdf env r w) = Inr (n @ ''.pdf'') \<and>
         files w (n @ ''.pdf'') = None \<and>
         files (snd (generate_pdf env r w)) (n @ ''.pdf'') =
           Some (PdfFile A4
                  [[\<lparr>origin = (40, 800), font = (''Helvetica'', 11),
                     text_lines =
                       [(14, unicode2T1 env ''Helvetica-Bold'' (Topic r)), (14, [])] @
                       map (\<lambda>l. (11, unicode2T1 env ''Helvetica'' l)) (py_split (Story r) CHR ''\<newline>'') @
                       [(11, unicode2T1 env ''Helvetica'' ''\<newline>Moral:''),
                        (11, unicode2T1 env ''Helvetica'' (Moral r))]\<rparr>]]) \<and>
         (\<forall>p. p \<noteq> n @ ''.pdf'' \<longrightarrow> files (snd (generate_pdf env r w)) p = files w p) \<and>
         py_split (Story r) CHR ''\<newline>'' \<noteq> [] \<and>
         concat (map (\<lambda>l. l @ ''\<newline>'') (py_split (Story r) CHR ''\<newline>'')) = Story r @ ''\<newline>'' \<and>
         (\<forall>l \<in> set (py_split (Story r) CHR ''\<newline>''). CHR ''\<newline>'' \<notin> set l) \<and>
         (\<forall>f s. written_as_is env f s \<longrightarrow> unicode2T1 env f s = map (Pair f) s) \<and>
         (written_as_is env ''Helvetica'' ''Moral:'' \<longrightarrow>
            unicode2T1 env ''Helvetica'' ''\<newline>Moral:'' =
              glyph_of env ''Helvetica'' ''\<newline>'' # map (Pair ''Helvetica'') ''Moral:'') \<and>
         (\<forall>f ch. codec env f ch = None \<and> codec env ''Symbol'' ch = None \<and>
                 codec env ''ZapfDingbats'' ch = None \<longrightarrow>
            glyph_of env f ch = (''ZapfDingbats'', CHR ''n''))"
proof -
  from assms have fresh: "files w (n @ ''.pdf'') = None"
    by (auto simp add: find_Some_iff)
  have square: "glyph_of env f ch = (''ZapfDingbats'', CHR ''n'')"
    if "codec env f ch = None \<and> codec env ''Symbol'' ch = None \<and> codec env ''ZapfDingbats'' ch = None"
    for f ch
    using that by (simp add: glyph_of_def notdef_glyph_def)
  show ?thesis
    using fresh py_split_not_Nil [of "Story r" "CHR ''\<newline>''"]
      py_split_join [of "CHR ''\<newline>''" "Story r"]
      py_split_no_sep [of _ "Story r" "CHR ''\<newline>''"]
      unicode2T1_written_as_is [of env] label_line [of env] square
    by (simp add: generate_pdf_name [OF assms])
qed

theorem generate_pdf_document_witness:
  "find (\<lambda>n. files example_world (n @ ''.pdf'') = None) (tmp_names example_env) = Some ''/tmp/tmpa1b2c3'' \<and>
   written_as_is example_env ''Helvetica-Bold'' (Topic example_story) \<and>
   fst (generate_pdf example_env example_story example_world) = Inr ''/tmp/tmpa1b2c3.pdf'' \<and>
   (\<exists>rest.
      files (snd (generate_pdf example_env example_story example_world)) ''/tmp/tmpa1b2c3.pdf'' =
        Some (PdfFile A4
               [[\<lparr>origin = (40, 800), font = (''Helvetica'', 11),
                  text_lines = (14, map (Pair ''Helvetica-Bold'') ''The Brave Fox'') # (14, []) # rest\<rparr>]]))"
proof -
  have free: "find (\<lambda>n. files example_world (n @ ''.pdf'') = None) (tmp_names example_env) =
                Some ''/tmp/tmpa1b2c3''"
    by (simp add: example_world_def example_env_def)
  have topic: "Topic example_story = ''The Brave Fox''"
    by (simp add: example_story_def)
  from generate_pdf_document [OF free, of example_story] example_written_as_is(2)
  have "fst (generate_pdf example_env example_story example_world) = Inr ''/tmp/tmpa1b2c3.pdf''"
    and "files (snd (generate_pdf example_env example_story example_world)) ''/tmp/tmpa1b2c3.pdf'' =
           Some (PdfFile A4
                  [[\<lparr>origin = (40, 800), font = (''Helvetica'', 11),
                     text_lines =
                       [(14, unicode2T1 example_env ''Helvetica-Bold'' (Topic example_story)), (14, [])] @
                       map (\<lambda>l. (11, unicode2T1 example_env ''Helvetica'' l))
                         (py_split (Story example_story) CHR ''\<newline>'') @
                       [(11, unicode2T1 example_env ''Helvetica'' ''\<newline>Moral:''),
                        (11, unicode2T1 example_env ''Helvetica'' (Moral example_story))]\<rparr>]])"
    and "unicode2T1 example_env ''Helvetica-Bold'' (Topic example_story) =
           map (Pair ''Helvetica-Bold'') (Topic example_story)"
    by simp_all
  with free example_written_as_is(2) topic show ?thesis
    by simp
qed

text \<open>
  C9, as stated, fails: the document holds the glyphs of the moral, not its text. For
  the story in Hindi, with the genre Adventure, the last line of the downloadable
  document is four filled squares.
\<close>

theorem hindi_moral_counterexample:
  "genre example_ui = ''Adventure'' \<and>
   fst (story_chain_invoke (example_env\<lparr>parser := \<lambda>reply. Inr hindi_story\<rparr>)
          (chain_inputs example_ui (fst (input_controls example_ui))) example_world) =
     Inr hindi_story \<and>
   (\<exists>t ls.
      last (fst (app (example_env\<lparr>parser := \<lambda>reply. Inr hindi_story\<rparr>) example_ui example_world)) =
        DownloadButton (emoji_page @ '' Download as PDF'') (PdfFile A4 [[t]])
          ''story.pdf'' ''application/pdf'' \<and>
      text_lines t = ls @ [(11, replicate 4 (''ZapfDingbats'', CHR ''n''))])"
proof -
  let ?env = "example_env\<lparr>parser := \<lambda>reply. Inr hindi_story\<rparr>"
  let ?d = "chain_inputs example_ui (fst (input_controls example_ui))"
  obtain msgs where msgs: "prompt_invoke (format_instructions ?env) ?d = Inr msgs"
    using prompt_invoke_chain_inputs by blast
  let ?w = "example_world\<lparr>chain_calls := chain_calls example_world @ [?d],
                          llm_calls := llm_calls example_world @ [msgs]\<rparr>"
  have chain: "story_chain_invoke ?env ?d example_world = (Inr hindi_story, ?w)"
    by (subst story_chain_invoke_eq [OF msgs]) (simp add: example_env_def)
  have free: "find (\<lambda>n. files ?w (n @ ''.pdf'') = None) (tmp_names ?env) = Some ''/tmp/tmpa1b2c3''"
    by (simp add: example_world_def example_env_def)
  have pre: "button example_ui" "user_topic example_ui \<noteq> []" "name example_ui \<noteq> []"
    and a: "genre example_ui = ''Adventure''"
    by (simp_all add: example_ui_def)
  have tables: "codec ?env = codec example_env"
    by simp
  have codec: "unicode2T1 ?env f s = unicode2T1 example_env f s" for f s
    unfolding unicode2T1_def glyph_of_def tables by (rule refl)
  let ?ls = "[(14, unicode2T1 ?env ''Helvetica-Bold'' (Topic hindi_story)), (14, [])] @
               map (\<lambda>l. (11, unicode2T1 ?env ''Helvetica'' l))
                 (py_split (Story hindi_story) CHR ''\<newline>'') @
               [(11, unicode2T1 ?env ''Helvetica'' ''\<newline>Moral:'')]"
  let ?t = "\<lparr>origin = (40, 800), font = (''Helvetica'', 11),
             text_lines = ?ls @ [(11, replicate 4 (''ZapfDingbats'', CHR ''n''))]\<rparr>"
  have "last (fst (app ?env example_ui example_world)) =
          DownloadButton (emoji_page @ '' Download as PDF'') (PdfFile A4 [[?t]])
            ''story.pdf'' ''application/pdf''"
    using pre
    by (simp add: app_pressed generate_story_succeeds [OF chain free] codec hindi_lines)
  moreover have "text_lines ?t = ?ls @ [(11, replicate 4 (''ZapfDingbats'', CHR ''n''))]"
    by simp
  ultimately have "\<exists>t ls.
      last (fst (app ?env example_ui example_world)) =
        DownloadButton (emoji_page @ '' Download as PDF'') (PdfFile A4 [[t]])
          ''story.pdf'' ''application/pdf'' \<and>
      text_lines t = ls @ [(11, replicate 4 (''ZapfDingbats'', CHR ''n''))]"
    by blast
  with a chain show ?thesis by simp
qed

text \<open>
  C9, amended. With the button pressed, both fields filled and a result \<open>r\<close> from the
  chain, whatever the genre: every download control on the page carries a one-page A4
  document whose text ends with the label line and the line of the moral of \<open>r\<close>, both
  as glyphs in Helvetica 11; and when a temporary name is free, the page ends with such
  a download control, named story.pdf. The label line ends with \<open>Moral:\<close> when
  Helvetica writes that word as it is, and the line of the moral is the moral's own
  characters when Helvetica writes the moral as it is.
\<close>

theorem pdf_download_always_has_moral:
  assumes "button ui" and "user_topic ui \<noteq> []" and "name ui \<noteq> []"
    and "fst (story_chain_invoke env (chain_inputs ui (fst (input_controls ui))) w) = Inr r"
  shows "(\<forall>l f n m. DownloadButton l f n m \<in> set (fst (app env ui w)) \<longrightarrow>
            (\<exists>t ls. f = PdfFile A4 [[t]] \<and>
                    text_lines t = ls @ [(11, unicode2T1 env ''Helvetica'' ''\<newline>Moral:''),
                                         (11, unicode2T1 env ''Helvetica'' (Moral r))])) \<and>
         (\<forall>n. find (\<lambda>n. files w (n @ ''.pdf'') = None) (tmp_names env) = Some n \<longrightarrow>
            (\<exists>t ls. last (fst (app env ui w)) =
                      DownloadButton (emoji_page @ '' Download as PDF'') (PdfFile A4 [[t]])
                        ''story.pdf'' ''application/pdf'' \<and>
                    text_lines t = ls @ [(11, unicode2T1 env ''Helvetica'' ''\<newline>Moral:''),
                                         (11, unicode2T1 env ''Helvetica'' (Moral r))])) \<and>
         (written_as_is env ''Helvetica'' ''Moral:'' \<longrightarrow>
            unicode2T1 env ''Helvetica'' ''\<newline>Moral:'' =
              glyph_of env ''Helvetica'' ''\<newline>'' # map (Pair ''Helvetica'') ''Moral:'') \<and>
         (written_as_is env ''Helvetica'' (Moral r) \<longrightarrow>
            unicode2T1 env ''Helvetica'' (Moral r) = map (Pair ''Helvetica'') (Moral r))"
proof -
  let ?d = "chain_inputs ui (fst (input_controls ui))"
  let ?t = "\<lparr>origin = (40, 800), font = (''Helvetica'', 11),
             text_lines =
               [(14, unicode2T1 env ''Helvetica-Bold'' (Topic r)), (14, [])] @
               map (\<lambda>l. (11, unicode2T1 env ''Helvetica'' l)) (py_split (Story r) CHR ''\<newline>'') @
               [(11, unicode2T1 env ''Helvetica'' ''\<newline>Moral:''),
                (11, unicode2T1 env ''Helvetica'' (Moral r))]\<rparr>"
  let ?ls = "[(14, unicode2T1 env ''Helvetica-Bold'' (Topic r)), (14, [])] @
               map (\<lambda>l. (11, unicode2T1 env ''Helvetica'' l)) (py_split (Story r) CHR ''\<newline>'')"
  obtain w1 where chain: "story_chain_invoke env ?d w = (Inr r, w1)"
    using assms(4) by (cases "story_chain_invoke env ?d w") simp
  have w1: "files w1 = files w"
    using story_chain_invoke_logs(1) [of env ?d w] chain by simp
  have tail: "text_lines ?t = ?ls @ [(11, unicode2T1 env ''Helvetica'' ''\<newline>Moral:''),
                                     (11, unicode2T1 env ''Helvetica'' (Moral r))]"
    by simp
  have glyphs: "written_as_is env ''Helvetica'' ''Moral:'' \<longrightarrow>
            unicode2T1 env ''Helvetica'' ''\<newline>Moral:'' =
              glyph_of env ''Helvetica'' ''\<newline>'' # map (Pair ''Helvetica'') ''Moral:''"
    "written_as_is env ''Helvetica'' (Moral r) \<longrightarrow>
            unicode2T1 env ''Helvetica'' (Moral r) = map (Pair ''Helvetica'') (Moral r)"
    using label_line [of env] unicode2T1_written_as_is [of env] by blast+
  have "(\<forall>l f n m. DownloadButton l f n m \<in> set (fst (app env ui w)) \<longrightarrow>
            (\<exists>t ls. f = PdfFile A4 [[t]] \<and>
                    text_lines t = ls @ [(11, unicode2T1 env ''Helvetica'' ''\<newline>Moral:''),
                                         (11, unicode2T1 env ''Helvetica'' (Moral r))])) \<and>
         (\<forall>n. find (\<lambda>n. files w (n @ ''.pdf'') = None) (tmp_names env) = Some n \<longrightarrow>
            (\<exists>t ls. last (fst (app env ui w)) =
                      DownloadButton (emoji_page @ '' Download as PDF'') (PdfFile A4 [[t]])
                        ''story.pdf'' ''application/pdf'' \<and>
                    text_lines t = ls @ [(11, unicode2T1 env ''Helvetica'' ''\<newline>Moral:''),
                                         (11, unicode2T1 env ''Helvetica'' (Moral r))]))"
  proof (cases "find (\<lambda>n. files w (n @ ''.pdf'') = None) (tmp_names env)")
    case None
    then have "find (\<lambda>n. files w1 (n @ ''.pdf'') = None) (tmp_names env) = None"
      by (simp add: w1)
    then have "fst (app env ui w) =
              snd (input_controls ui) @
                [Button (emoji_sparkles @ '' Generate Story''),
                 Spinner ''Creating your story...'',
                 Subheader (emoji_pin @ '' Topic''), Write (Topic r),
                 Subheader (emoji_books @ '' Story''), Write (Story r)] @
                (if genre ui = ''Motivational'' \<or> genre ui = ''Educational''
                 then [Subheader (emoji_seedling @ '' Moral''), Write (Moral r)] else []) @
                [ErrorMsg ''Story generation failed.'',
                 ExceptionMsg (OSError ''No usable temporary file name found'')]"
      using assms(1-3) by (simp add: app_pressed generate_story_pdf_fails [OF chain])
    then have "DownloadButton l f n m \<notin> set (fst (app env ui w))" for l f n m
      by (simp add: input_controls_plain)
    with None show ?thesis by simp
  next
    case (Some n)
    then have free: "find (\<lambda>n. files w1 (n @ ''.pdf'') = None) (tmp_names env) = Some n"
      by (simp add: w1)
    have out: "fst (app env ui w) =
              snd (input_controls ui) @
                [Button (emoji_sparkles @ '' Generate Story''),
                 Spinner ''Creating your story...'',
                 Subheader (emoji_pin @ '' Topic''), Write (Topic r),
                 Subheader (emoji_books @ '' Story''), Write (Story r)] @
                (if genre ui = ''Motivational'' \<or> genre ui = ''Educational''
                 then [Subheader (emoji_seedling @ '' Moral''), Write (Moral r)] else []) @
                [DownloadButton (emoji_page @ '' Download as PDF'') (PdfFile A4 [[?t]])
                   ''story.pdf'' ''application/pdf'']"
      using assms(1-3) by (simp add: app_pressed generate_story_succeeds [OF chain free])
    have every: "\<exists>t ls. f = PdfFile A4 [[t]] \<and>
                    text_lines t = ls @ [(11, unicode2T1 env ''Helvetica'' ''\<newline>Moral:''),
                                         (11, unicode2T1 env ''Helvetica'' (Moral r))]"
      if "DownloadButton l f n' m \<in> set (fst (app env ui w))" for l f n' m
    proof -
      from that have "f = PdfFile A4 [[?t]]"
        by (simp add: out input_controls_plain)
      with tail show ?thesis by blast
    qed
    have "last (fst (app env ui w)) =
            DownloadButton (emoji_page @ '' Download as PDF'') (PdfFile A4 [[?t]])
              ''story.pdf'' ''application/pdf''"
      by (simp add: out)
    with tail have "\<exists>t ls. last (fst (app env ui w)) =
                      DownloadButton (emoji_page @ '' Download as PDF'') (PdfFile A4 [[t]])
                        ''story.pdf'' ''application/pdf'' \<and>
                    text_lines t = ls @ [(11, unicode2T1 env ''Helvetica'' ''\<newline>Moral:''),
                                         (11, unicode2T1 env ''Helvetica'' (Moral r))]"
      by blast
    with every show ?thesis by blast
  qed
  with glyphs show ?thesis by blast
qed

theorem pdf_download_always_has_moral_witness:
  "button example_ui \<and> user_topic example_ui \<noteq> [] \<and> name example_ui \<noteq> [] \<and>
   genre example_ui = ''Adventure'' \<and>
   written_as_is example_env ''Helvetica'' ''Moral:'' \<and>
   written_as_is example_env ''Helvetica'' (Moral example_story) \<and>
   (\<exists>t ls. last (fst (app example_env example_ui example_world)) =
              DownloadButton (emoji_page @ '' Download as PDF'') (PdfFile A4 [[t]])
                ''story.pdf'' ''application/pdf'' \<and>
            text_lines t = ls @ [(11, (''ZapfDingbats'', CHR ''n'') # map (Pair ''Helvetica'') ''Moral:''),
                                 (11, map (Pair ''Helvetica'') ''Be brave.'')])"
proof -
  have pre: "button example_ui" "user_topic example_ui \<noteq> []" "name example_ui \<noteq> []"
    by (simp_all add: example_ui_def)
  have chain: "fst (story_chain_invoke example_env
                 (chain_inputs example_ui (fst (input_controls example_ui))) example_world) =
               Inr example_story"
    using example_chain_succeeds [of example_ui "fst (input_controls example_ui)" example_world]
    by (metis fst_conv)
  have free: "find (\<lambda>n. files example_world (n @ ''.pdf'') = None) (tmp_names example_env) =
                Some ''/tmp/tmpa1b2c3''"
    by (simp add: example_world_def example_env_def)
  have a: "genre example_ui = ''Adventure''"
    by (simp add: example_ui_def)
  have m: "Moral example_story = ''Be brave.''"
    by (simp add: example_story_def)
  have nl: "glyph_of example_env ''Helvetica'' ''\<newline>'' = (''ZapfDingbats'', CHR ''n'')"
    by (simp add: glyph_of_def notdef_glyph_def example_env_def ascii_codec_def)
  from pdf_download_always_has_moral [OF pre chain] free example_written_as_is(1,3)
  have "\<exists>t ls. last (fst (app example_env example_ui example_world)) =
              DownloadButton (emoji_page @ '' Download as PDF'') (PdfFile A4 [[t]])
                ''story.pdf'' ''application/pdf'' \<and>
            text_lines t = ls @ [(11, glyph_of example_env ''Helvetica'' ''\<newline>'' #
                                      map (Pair ''Helvetica'') ''Moral:''),
                                 (11, map (Pair ''Helvetica'') (Moral example_story))]"
    by (metis (no_types, lifting))
  with pre a m nl example_written_as_is(1,3) show ?thesis by simp
qed

subsection \<open>What the prompt depends on\<close>

text \<open>
  C7. The formatted prompt does not depend on the selected language: two dictionaries
  that differ in the language give the same messages, and two runs of the script that
  differ only in the language send the same message lists to the model and show the
  same page.
\<close>

theorem language_not_in_prompt:
  "prompt_invoke fi (chain_inputs (ui\<lparr>language := la\<rparr>) ps) =
     prompt_invoke fi (chain_inputs (ui\<lparr>language := lb\<rparr>) ps) \<and>
   llm_calls (snd (app env (ui\<lparr>language := la\<rparr>) w)) =
     llm_calls (snd (app env (ui\<lparr>language := lb\<rparr>) w)) \<and>
   fst (app env (ui\<lparr>language := la\<rparr>) w) = fst (app env (ui\<lparr>language := lb\<rparr>) w)"
proof -
  let ?ua = "ui\<lparr>language := la\<rparr>" and ?ub = "ui\<lparr>language := lb\<rparr>"
  have p: "prompt_invoke fi' (chain_inputs ?ua ps') = prompt_invoke fi' (chain_inputs ?ub ps')"
    for fi' ps'
    by (rule prompt_invoke_indep) simp_all
  have ic: "input_controls ?ua = input_controls ?ub"
    by (simp add: input_controls_def Let_def)
  have g: "fst (generate_story env ?ua ps' w) = fst (generate_story env ?ub ps' w)"
    "llm_calls (snd (generate_story env ?ua ps' w)) = llm_calls (snd (generate_story env ?ub ps' w))"
    for ps'
    using generate_story_same_prompt [OF _ p, of env ps' w] by simp_all
  have "llm_calls (snd (app env ?ua w)) = llm_calls (snd (app env ?ub w)) \<and>
        fst (app env ?ua w) = fst (app env ?ub w)"
  proof (cases "button ui \<and> user_topic ui \<noteq> [] \<and> name ui \<noteq> []")
    case True
    then show ?thesis
      by (simp add: app_pressed ic g)
  next
    case False
    then show ?thesis
      by (auto simp add: app_def Let_def ic split: prod.splits)
  qed
  with p show ?thesis by simp
qed

theorem language_not_in_prompt_witness:
  "llm_calls (snd (app example_env (example_ui\<lparr>language := ''Gujarati''\<rparr>) example_world)) =
     llm_calls (snd (app example_env (example_ui\<lparr>language := ''English''\<rparr>) example_world)) \<and>
   length (llm_calls (snd (app example_env (example_ui\<lparr>language := ''Gujarati''\<rparr>) example_world))) = 1"
proof -
  have pre: "button (example_ui\<lparr>language := ''Gujarati''\<rparr>)"
    "user_topic (example_ui\<lparr>language := ''Gujarati''\<rparr>) \<noteq> []"
    "name (example_ui\<lparr>language := ''Gujarati''\<rparr>) \<noteq> []"
    by (simp_all add: example_ui_def)
  obtain msgs where "llm_calls (snd (app example_env (example_ui\<lparr>language := ''Gujarati''\<rparr>) example_world)) =
      llm_calls example_world @ [msgs]"
    using app_llm_calls [OF pre, of example_env example_world] by blast
  then have "length (llm_calls (snd (app example_env (example_ui\<lparr>language := ''Gujarati''\<rparr>) example_world))) = 1"
    by (simp add: example_world_def)
  with language_not_in_prompt [where ui = example_ui and la = "''Gujarati''" and lb = "''English''"
      and env = example_env and w = example_world]
  show ?thesis by simp
qed

text \<open>
  C10. The formatted prompt does not depend on the parent-safe flag: two dictionaries
  that differ in the flag give the same messages, and two runs of the script that differ
  only in the state of the checkbox send the same message lists to the model and show
  the same page.
\<close>

theorem parent_safe_not_in_prompt:
  "prompt_invoke fi (chain_inputs ui pa) = prompt_invoke fi (chain_inputs ui pb) \<and>
   llm_calls (snd (app env (ui\<lparr>checkbox := pa\<rparr>) w)) =
     llm_calls (snd (app env (ui\<lparr>checkbox := pb\<rparr>) w)) \<and>
   fst (app env (ui\<lparr>checkbox := pa\<rparr>) w) = fst (app env (ui\<lparr>checkbox := pb\<rparr>) w)"
proof -
  let ?ua = "ui\<lparr>checkbox := pa\<rparr>" and ?ub = "ui\<lparr>checkbox := pb\<rparr>"
  have p: "prompt_invoke fi' (chain_inputs ?ua ps') = prompt_invoke fi' (chain_inputs ?ub ps)"
    for fi' ps' ps
    by (rule prompt_invoke_indep) simp_all
  have q: "prompt_invoke fi (chain_inputs ui pa) = prompt_invoke fi (chain_inputs ui pb)"
    by (rule prompt_invoke_indep) simp_all
  have ic: "snd (input_controls ?ua) = snd (input_controls ?ub)"
    by (simp add: input_controls_def Let_def)
  have g: "fst (generate_story env ?ua ps' w) = fst (generate_story env ?ub ps w)"
    "llm_calls (snd (generate_story env ?ua ps' w)) = llm_calls (snd (generate_story env ?ub ps w))"
    for ps' ps
    using generate_story_same_prompt [OF _ p] by simp_all
  have "llm_calls (snd (app env ?ua w)) = llm_calls (snd (app env ?ub w)) \<and>
        fst (app env ?ua w) = fst (app env ?ub w)"
  proof (cases "button ui \<and> user_topic ui \<noteq> [] \<and> name ui \<noteq> []")
    case True
    then show ?thesis
      by (simp add: app_pressed ic g)
  next
    case False
    then have "app env ?ua w = (snd (input_controls ?ua) @
                 (Button (emoji_sparkles @ '' Generate Story'') #
                    (if button ui then [Warning ''Please fill all required fields.''] else [])), w)"
      and "app env ?ub w = (snd (input_controls ?ub) @
                 (Button (emoji_sparkles @ '' Generate Story'') #
                    (if button ui then [Warning ''Please fill all required fields.''] else [])), w)"
      by (auto simp add: app_def Let_def split: prod.splits)
    then show ?thesis
      by (simp add: ic)
  qed
  with q show ?thesis by simp
qed

theorem parent_safe_not_in_prompt_witness:
  "llm_calls (snd (app example_env (example_ui\<lparr>checkbox := False\<rparr>) example_world)) =
     llm_calls (snd (app example_env (example_ui\<lparr>checkbox := True\<rparr>) example_world)) \<and>
   length (llm_calls (snd (app example_env (example_ui\<lparr>checkbox := False\<rparr>) example_world))) = 1 \<and>
   chain_calls (snd (app example_env (example_ui\<lparr>checkbox := False\<rparr>) example_world)) \<noteq>
     chain_calls (snd (app example_env (example_ui\<lparr>checkbox := True\<rparr>) example_world))"
proof -
  let ?ua = "example_ui\<lparr>checkbox := False\<rparr>" and ?ub = "example_ui\<lparr>checkbox := True\<rparr>"
  have pre: "button ?ua" "user_topic ?ua \<noteq> []" "name ?ua \<noteq> []"
    and pre': "button ?ub" "user_topic ?ub \<noteq> []" "name ?ub \<noteq> []"
    by (simp_all add: example_ui_def)
  obtain msgs where "llm_calls (snd (app example_env ?ua example_world)) =
      llm_calls example_world @ [msgs]"
    using app_llm_calls [OF pre, of example_env example_world] by blast
  then have one: "length (llm_calls (snd (app example_env ?ua example_world))) = 1"
    by (simp add: example_world_def)
  have "chain_calls (snd (app example_env ?ua example_world)) =
          chain_calls example_world @ [chain_inputs ?ua (fst (input_controls ?ua))]"
    and "chain_calls (snd (app example_env ?ub example_world)) =
          chain_calls example_world @ [chain_inputs ?ub (fst (input_controls ?ub))]"
    using pre pre' by (simp_all add: app_pressed generate_story_chain_calls)
  then have differ: "chain_calls (snd (app example_env ?ua example_world)) \<noteq>
     chain_calls (snd (app example_env ?ub example_world))"
    by (simp add: chain_inputs_def input_controls_def Let_def example_ui_def)
  from parent_safe_not_in_prompt [where ui = example_ui and pa = False and pb = True
      and env = example_env and w = example_world] one differ
  show ?thesis by simp
qed

text \<open>
  C8. For every dictionary the handler builds, the prompt is formatted, and its human
  message contains the table of age guidelines as one block: the heading and the four
  rows for 3 to 6, 7 to 12, 13 to 17 and 18+, each with its guidance; in particular
  the row for 7 to 12. With the button pressed and both fields filled, that message is
  what the model receives.
\<close>

theorem age_guidelines_in_every_prompt:
  "\<exists>h. prompt_invoke (format_instructions env) (chain_inputs ui (fst (input_controls ui))) =
          Inr [SystemMessage system_template, HumanMessage h] \<and>
        sublist
          (concat
             [''Age Guidelines:\<newline>'',
              ''        - Age 3'', en_dash, ''6: Very simple words, cheerful tone, short sentences\<newline>'',
              ''        - Age 7'', en_dash, ''12: Simple plot, light adventure, positive moral\<newline>'',
              ''        - Age 13'', en_dash, ''17: Deeper emotions, character growth, mild conflict\<newline>'',
              ''        - Age 18+: Mature themes, nuanced characters, richer language\<newline>''])
          h \<and>
        sublist (''- Age 7'' @ en_dash @ ''12: Simple plot, light adventure, positive moral'') h \<and>
        (button ui \<and> user_topic ui \<noteq> [] \<and> name ui \<noteq> [] \<longrightarrow>
           llm_calls (snd (app env ui w)) =
             llm_calls w @ [[SystemMessage system_template, HumanMessage h]])"
proof -
  let ?d = "chain_inputs ui (fst (input_controls ui))"
  obtain s where s: "prompt_invoke (format_instructions env) ?d =
      Inr [SystemMessage system_template, HumanMessage (s @ drop 202 human_template)]"
    using prompt_invoke_chain_inputs by blast
  have sent: "llm_calls (snd (app env ui w)) =
             llm_calls w @ [[SystemMessage system_template, HumanMessage (s @ drop 202 human_template)]]"
    if "button ui \<and> user_topic ui \<noteq> [] \<and> name ui \<noteq> []"
    using that by (simp add: app_pressed generate_story_llm_calls [OF s])
  show ?thesis
    using s sent age_guidelines_in_tail [THEN sublist_append_left, of s]
      age_7_12_in_tail [THEN sublist_append_left, of s]
    by (intro exI [of _ "s @ drop 202 human_template"]) blast
qed

theorem age_guidelines_in_every_prompt_witness:
  "age example_ui = 8 \<and>
   (\<exists>h. llm_calls (snd (app example_env example_ui example_world)) =
           [[SystemMessage system_template, HumanMessage h]] \<and>
         sublist (''- Age 7'' @ en_dash @ ''12: Simple plot, light adventure, positive moral'') h)"
proof -
  have pre: "button example_ui \<and> user_topic example_ui \<noteq> [] \<and> name example_ui \<noteq> []"
    and a: "age example_ui = 8"
    by (simp_all add: example_ui_def)
  from age_guidelines_in_every_prompt [of example_env example_ui example_world] pre
  obtain h where "llm_calls (snd (app example_env example_ui example_world)) =
             llm_calls example_world @ [[SystemMessage system_template, HumanMessage h]]"
    and "sublist (''- Age 7'' @ en_dash @ ''12: Simple plot, light adventure, positive moral'') h"
    by blast
  with a show ?thesis
    by (auto simp add: example_world_def)
qed

end
